theory Spec2Isabelle
  imports Complex_Main
begin

section \<open>Data model\<close>

text \<open>
  The tables of \<^verbatim>\<open>app/models\<close>, one record per mapped class, with the columns the
  metric code and the two update endpoints read or write. Primary keys (UUIDs and integer
  ids) are natural numbers and integers, a date is a day number, a timestamp a number of
  seconds. A \<^verbatim>\<open>Numeric(10, 2)\<close> column is a rational number: sums, products and
  quotients are exact, so the rounding of Python's decimal context and of the column scale
  is left out. A nullable column is an \<open>option\<close>.
\<close>

type_synonym uuid = nat

record DailyReport =
  r_id :: uuid
  r_date :: int
  r_power_plant_id :: int
  r_gas_loss :: rat
  r_ncc_loss :: rat
  r_internal_loss :: rat
  r_gas_consumed :: rat
  r_declaration_total :: "rat option"
  r_availability_capacity :: "rat option"
  r_availability_factor :: "rat option"
  r_plant_heat_rate :: "rat option"
  r_thermal_efficiency :: "rat option"
  r_energy_generated :: "rat option"
  r_total_energy_exported :: "rat option"
  r_energy_consumed :: "rat option"
  r_availability_forecast :: "rat option"
  r_dependability_index :: "rat option"
  r_avg_energy_sent_out :: "rat option"
  r_gas_utilization :: "rat option"
  r_load_factor :: "rat option"
  r_updated_at :: "int option"
  r_submission_deadline :: "int option"
  r_is_late_submission :: bool
  r_last_modified_by_id :: "int option"

record TurbineDailyStats =
  s_id :: uuid
  s_daily_report_id :: uuid
  s_turbine_id :: int
  s_energy_generated :: rat
  s_energy_exported :: rat
  s_operating_hours :: rat
  s_startup_count :: int
  s_shutdown_count :: int
  s_trips :: int

record TurbineHourlyGeneration =
  h_id :: uuid
  h_daily_report_id :: uuid
  h_turbine_id :: int
  h_hour :: int
  h_energy_generated :: rat

record PowerPlant =
  p_id :: int
  p_total_capacity :: rat

record MorningReading =
  m_id :: uuid
  m_date :: int
  m_power_plant_id :: int
  m_declaration_total :: rat
  m_availability_capacity :: rat

record Turbine =
  t_id :: int
  t_power_plant_id :: int

datatype UserRole = ADMIN | OPERATOR | EDITOR | VIEWER

record User =
  u_id :: int
  u_role :: UserRole
  u_power_plant_id :: "int option"

record db =
  daily_reports :: "DailyReport list"
  turbine_daily_stats :: "TurbineDailyStats list"
  turbine_hourly_generations :: "TurbineHourlyGeneration list"
  power_plants :: "PowerPlant list"
  morning_readings :: "MorningReading list"
  turbines :: "Turbine list"

section \<open>Queries, errors and arithmetic\<close>

text \<open>
  \<^verbatim>\<open>query(...).filter(P).first()\<close> is \<open>find P\<close> on the table,
  \<^verbatim>\<open>.all()\<close> is \<open>filter P\<close>, and \<^verbatim>\<open>func.sum(col) ... .scalar() or 0\<close> is
  \<open>sum_list\<close> of the column over the filtered rows (no row, or a zero sum, gives 0).
  Writing to the object that \<^verbatim>\<open>.first()\<close> returned and committing replaces that
  row, the first one that satisfies the filter.
\<close>

fun update_first :: "('a \<Rightarrow> bool) \<Rightarrow> ('a \<Rightarrow> 'a) \<Rightarrow> 'a list \<Rightarrow> 'a list" where
  "update_first P f [] = []"
| "update_first P f (x # xs) = (if P x then f x # xs else x # update_first P f xs)"

datatype error =
  DivisionByZero | AttributeError | TypeError | HTTP_404_NOT_FOUND | HTTP_403_FORBIDDEN

definition ebind :: "error + 'a \<Rightarrow> ('a \<Rightarrow> error + 'b) \<Rightarrow> error + 'b" where
  "ebind m f = (case m of Inl e \<Rightarrow> Inl e | Inr v \<Rightarrow> f v)"

text \<open>Every \<^verbatim>\<open>/\<close> of the source: a zero divisor raises.\<close>

definition decimal_div :: "rat \<Rightarrow> rat \<Rightarrow> error + rat" where
  "decimal_div a b = (if b = 0 then Inl DivisionByZero else Inr (a / b))"

text \<open>Python's truth value of an optional number: \<^verbatim>\<open>None\<close> and zero are false.\<close>

definition truthy :: "rat option \<Rightarrow> bool" where
  "truthy v = (case v of None \<Rightarrow> False | Some x \<Rightarrow> x \<noteq> 0)"

section \<open>\<^verbatim>\<open>services/calculation_service.py\<close>\<close>

text \<open>
  \<^verbatim>\<open>CalculationService.calculate_and_update_all_metrics\<close> of the service module, the one
  that \<^verbatim>\<open>daily_reports.py\<close> and \<^verbatim>\<open>hourly_readings.py\<close> import. Each definition is
  one commented block of the method, in the order of the source, applied to the report
  object as the blocks before it left it.
\<close>

definition service_energy_totals :: "TurbineDailyStats list \<Rightarrow> DailyReport \<Rightarrow> DailyReport" where
  "service_energy_totals turbine_stats daily_report =
     (let total_energy_generated = sum_list (map s_energy_generated turbine_stats);
          total_energy_exported = sum_list (map s_energy_exported turbine_stats)
      in daily_report
           \<lparr>r_energy_generated := Some total_energy_generated,
            r_total_energy_exported := Some total_energy_exported,
            r_energy_consumed := Some (total_energy_generated - total_energy_exported)\<rparr>)"

definition service_copy_declaration :: "MorningReading option \<Rightarrow> DailyReport \<Rightarrow> DailyReport" where
  "service_copy_declaration morning_reading daily_report =
     (case morning_reading of
        None \<Rightarrow> daily_report
      | Some m \<Rightarrow>
          (if \<not> truthy (r_declaration_total daily_report)
           then daily_report\<lparr>r_declaration_total := Some (m_declaration_total m)\<rparr>
           else daily_report))"

definition service_copy_availability :: "MorningReading option \<Rightarrow> DailyReport \<Rightarrow> DailyReport" where
  "service_copy_availability morning_reading daily_report =
     (case morning_reading of
        None \<Rightarrow> daily_report
      | Some m \<Rightarrow>
          (if \<not> truthy (r_availability_capacity daily_report)
           then daily_report\<lparr>r_availability_capacity := Some (m_availability_capacity m)\<rparr>
           else daily_report))"

definition service_availability_factor :: "PowerPlant \<Rightarrow> DailyReport \<Rightarrow> error + DailyReport" where
  "service_availability_factor power_plant daily_report =
     (case r_availability_capacity daily_report of
        None \<Rightarrow> Inr daily_report
      | Some availability_capacity \<Rightarrow>
          (if availability_capacity \<noteq> 0 \<and> p_total_capacity power_plant > 0
           then ebind (decimal_div availability_capacity (p_total_capacity power_plant))
                  (\<lambda>q. Inr (daily_report\<lparr>r_availability_factor := Some (q * 100)\<rparr>))
           else Inr daily_report))"

definition service_availability_forecast :: "DailyReport \<Rightarrow> DailyReport" where
  "service_availability_forecast daily_report =
     (case r_declaration_total daily_report of
        None \<Rightarrow> daily_report
      | Some declaration_total \<Rightarrow>
          (if declaration_total \<noteq> 0
           then daily_report\<lparr>r_availability_forecast := Some (declaration_total * 24)\<rparr>
           else daily_report))"

definition service_dependability_index :: "rat \<Rightarrow> DailyReport \<Rightarrow> error + DailyReport" where
  "service_dependability_index total_energy_generated daily_report =
     (case r_availability_forecast daily_report of
        None \<Rightarrow> Inr daily_report
      | Some availability_forecast \<Rightarrow>
          (if availability_forecast \<noteq> 0 \<and> availability_forecast > 0
           then ebind (decimal_div total_energy_generated availability_forecast)
                  (\<lambda>q. Inr (daily_report\<lparr>r_dependability_index := Some (q * 100)\<rparr>))
           else Inr daily_report))"

definition service_avg_energy_sent_out :: "rat \<Rightarrow> DailyReport \<Rightarrow> error + DailyReport" where
  "service_avg_energy_sent_out total_energy_exported daily_report =
     ebind (decimal_div total_energy_exported 24)
       (\<lambda>q. Inr (daily_report\<lparr>r_avg_energy_sent_out := Some q\<rparr>))"

definition service_gas_utilization :: "rat \<Rightarrow> DailyReport \<Rightarrow> error + DailyReport" where
  "service_gas_utilization total_energy_generated daily_report =
     (if r_gas_consumed daily_report > 0
      then ebind (decimal_div total_energy_generated (r_gas_consumed daily_report))
             (\<lambda>q. Inr (daily_report\<lparr>r_gas_utilization := Some q\<rparr>))
      else Inr daily_report)"

definition service_plant_heat_rate :: "DailyReport \<Rightarrow> error + DailyReport" where
  "service_plant_heat_rate daily_report =
     (case r_gas_utilization daily_report of
        None \<Rightarrow> Inr daily_report
      | Some gas_utilization \<Rightarrow>
          (if gas_utilization \<noteq> 0 \<and> gas_utilization > 0
           then ebind (decimal_div ((4365 / 100) * 1000 * 24) gas_utilization)
                  (\<lambda>q. Inr (daily_report\<lparr>r_plant_heat_rate := Some q\<rparr>))
           else Inr daily_report))"

definition service_thermal_efficiency :: "DailyReport \<Rightarrow> error + DailyReport" where
  "service_thermal_efficiency daily_report =
     (case r_plant_heat_rate daily_report of
        None \<Rightarrow> Inr daily_report
      | Some plant_heat_rate \<Rightarrow>
          (if plant_heat_rate \<noteq> 0 \<and> plant_heat_rate > 0
           then ebind (decimal_div 3600 plant_heat_rate)
                  (\<lambda>q. Inr (daily_report\<lparr>r_thermal_efficiency := Some (q * 100)\<rparr>))
           else Inr daily_report))"

definition service_load_factor :: "PowerPlant \<Rightarrow> rat \<Rightarrow> DailyReport \<Rightarrow> error + DailyReport" where
  "service_load_factor power_plant total_energy_generated daily_report =
     (if p_total_capacity power_plant \<noteq> 0 \<and> total_energy_generated \<noteq> 0
      then ebind (decimal_div total_energy_generated 24)
             (\<lambda>a. ebind (decimal_div a (p_total_capacity power_plant))
                (\<lambda>q. Inr (daily_report\<lparr>r_load_factor := Some (q * 100)\<rparr>)))
      else Inr daily_report)"

text \<open>Lines 50 to 102: the blocks in sequence, on the rows the queries returned.\<close>

definition service_metrics ::
  "PowerPlant \<Rightarrow> MorningReading option \<Rightarrow> TurbineDailyStats list \<Rightarrow> DailyReport \<Rightarrow> error + DailyReport" where
  "service_metrics power_plant morning_reading turbine_stats daily_report =
     (let total_energy_generated = sum_list (map s_energy_generated turbine_stats);
          total_energy_exported = sum_list (map s_energy_exported turbine_stats);
          r1 = service_energy_totals turbine_stats daily_report;
          r2 = service_copy_declaration morning_reading r1;
          r3 = service_copy_availability morning_reading r2
      in ebind (service_availability_factor power_plant r3)
           (\<lambda>r4. ebind (service_dependability_index total_energy_generated (service_availability_forecast r4))
           (\<lambda>r6. ebind (service_avg_energy_sent_out total_energy_exported r6)
           (\<lambda>r7. ebind (service_gas_utilization total_energy_generated r7)
           (\<lambda>r8. ebind (service_plant_heat_rate r8)
           (\<lambda>r9. ebind (service_thermal_efficiency r9)
           (\<lambda>r10. service_load_factor power_plant total_energy_generated r10)))))))"

text \<open>
  The method: the two early returns leave the database as it is; otherwise the computed
  report replaces the stored one at the commit. An exception leaves nothing committed.
\<close>

definition service_calculate_and_update_all_metrics :: "db \<Rightarrow> uuid \<Rightarrow> error + db" where
  "service_calculate_and_update_all_metrics d daily_report_id =
     (case find (\<lambda>r. r_id r = daily_report_id) (daily_reports d) of
        None \<Rightarrow> Inr d
      | Some daily_report \<Rightarrow>
          (case find (\<lambda>p. p_id p = r_power_plant_id daily_report) (power_plants d) of
             None \<Rightarrow> Inr d
           | Some power_plant \<Rightarrow>
               ebind (service_metrics power_plant
                        (find (\<lambda>m. m_date m = r_date daily_report
                                  \<and> m_power_plant_id m = r_power_plant_id daily_report)
                           (morning_readings d))
                        (filter (\<lambda>s. s_daily_report_id s = daily_report_id) (turbine_daily_stats d))
                        daily_report)
                 (\<lambda>r'. Inr (d\<lparr>daily_reports :=
                              update_first (\<lambda>r. r_id r = daily_report_id) (\<lambda>_. r') (daily_reports d)\<rparr>))))"

section \<open>\<^verbatim>\<open>api/v1/endpoints/calculations.py\<close>\<close>

text \<open>
  The second \<^verbatim>\<open>CalculationService\<close>, which no module imports. It reads two attributes
  that the models do not declare: \<^verbatim>\<open>TurbineHourlyGeneration.energy_exported\<close>
  (\<^verbatim>\<open>models/daily_report.py\<close> declares \<^verbatim>\<open>energy_generated\<close> only) and
  \<^verbatim>\<open>power_plant.installed_capacity\<close> (\<^verbatim>\<open>models/power_plant.py\<close> declares
  \<^verbatim>\<open>total_capacity\<close>). Python raises \<^verbatim>\<open>AttributeError\<close> where either is
  evaluated. Line 62 multiplies \<^verbatim>\<open>report.gas_consumed\<close>, a \<^verbatim>\<open>Decimal\<close> as the
  \<^verbatim>\<open>Numeric\<close> column loads it, by the float literal \<^verbatim>\<open>35.314\<close>, which raises
  \<^verbatim>\<open>TypeError\<close>. The three definitions below are these evaluations; what the source
  does with their values follows them in each block, as it is written.
\<close>

definition hourly_energy_exported :: "error + (TurbineHourlyGeneration \<Rightarrow> rat)" where
  "hourly_energy_exported = Inl AttributeError"

definition installed_capacity :: "PowerPlant \<Rightarrow> error + rat" where
  "installed_capacity power_plant = Inl AttributeError"

definition decimal_times_float :: "rat \<Rightarrow> rat \<Rightarrow> error + rat" where
  "decimal_times_float a b = Inl TypeError"

text \<open>
  The loop of \<^verbatim>\<open>_update_turbine_stats_from_hourly\<close> runs over the distinct turbine ids
  of the report's daily-stat rows; each round evaluates the sum of
  \<^verbatim>\<open>energy_generated\<close>, then that of \<^verbatim>\<open>energy_exported\<close>, then writes the row.
\<close>

fun calculations_turbine_loop ::
  "TurbineHourlyGeneration list \<Rightarrow> uuid \<Rightarrow> int list \<Rightarrow> TurbineDailyStats list
     \<Rightarrow> error + TurbineDailyStats list" where
  "calculations_turbine_loop hourly report_id [] stats = Inr stats"
| "calculations_turbine_loop hourly report_id (turbine_id # turbine_ids) stats =
     (let rows = filter (\<lambda>h. h_daily_report_id h = report_id \<and> h_turbine_id h = turbine_id) hourly;
          energy_generated = sum_list (map h_energy_generated rows)
      in case hourly_energy_exported of
           Inl e \<Rightarrow> Inl e
         | Inr column \<Rightarrow>
             (let energy_exported = sum_list (map column rows)
              in calculations_turbine_loop hourly report_id turbine_ids
                   (update_first (\<lambda>s. s_daily_report_id s = report_id \<and> s_turbine_id s = turbine_id)
                      (\<lambda>s. s\<lparr>s_energy_generated := energy_generated,
                              s_energy_exported := energy_exported\<rparr>)
                      stats)))"

definition calculations_update_turbine_stats_from_hourly :: "db \<Rightarrow> uuid \<Rightarrow> error + db" where
  "calculations_update_turbine_stats_from_hourly d report_id =
     ebind (calculations_turbine_loop (turbine_hourly_generations d) report_id
              (remdups (map s_turbine_id
                 (filter (\<lambda>s. s_daily_report_id s = report_id) (turbine_daily_stats d))))
              (turbine_daily_stats d))
       (\<lambda>stats. Inr (d\<lparr>turbine_daily_stats := stats\<rparr>))"

definition calculations_update_energy_totals ::
  "db \<Rightarrow> DailyReport \<Rightarrow> error + db \<times> DailyReport" where
  "calculations_update_energy_totals d report =
     (let report0 = report\<lparr>r_energy_generated := Some 0, r_total_energy_exported := Some 0\<rparr>;
          hourly = filter (\<lambda>h. h_daily_report_id h = r_id report) (turbine_hourly_generations d);
          stats = filter (\<lambda>s. s_daily_report_id s = r_id report) (turbine_daily_stats d)
      in if length hourly > 0
         then (let energy_generated = sum_list (map h_energy_generated hourly)
               in ebind hourly_energy_exported
                    (\<lambda>column.
                       ebind (calculations_update_turbine_stats_from_hourly d (r_id report))
                         (\<lambda>d1. Inr (d1,
                            report0\<lparr>r_energy_generated := Some energy_generated,
                                    r_total_energy_exported := Some (sum_list (map column hourly))\<rparr>))))
         else Inr (d,
               report0\<lparr>r_energy_generated := Some (sum_list (map s_energy_generated stats)),
                       r_total_energy_exported := Some (sum_list (map s_energy_exported stats))\<rparr>))"

definition calculations_defaults :: "DailyReport \<Rightarrow> DailyReport" where
  "calculations_defaults report =
     report\<lparr>r_energy_consumed := Some 0, r_availability_factor := Some 0,
            r_plant_heat_rate := Some 0, r_thermal_efficiency := Some 0,
            r_availability_forecast := Some 0, r_dependability_index := Some 0,
            r_avg_energy_sent_out := Some 0, r_gas_utilization := Some 0,
            r_load_factor := Some 0\<rparr>"

definition calculations_energy_consumed :: "DailyReport \<Rightarrow> DailyReport" where
  "calculations_energy_consumed report =
     (case r_energy_generated report of
        None \<Rightarrow> report
      | Some energy_generated \<Rightarrow>
          (case r_total_energy_exported report of
             None \<Rightarrow> report
           | Some total_energy_exported \<Rightarrow>
               report\<lparr>r_energy_consumed := Some (energy_generated - total_energy_exported)\<rparr>))"

definition calculations_availability_factor :: "PowerPlant \<Rightarrow> DailyReport \<Rightarrow> error + DailyReport" where
  "calculations_availability_factor power_plant report =
     (case r_availability_capacity report of
        None \<Rightarrow> Inr report
      | Some availability_capacity \<Rightarrow>
          ebind (installed_capacity power_plant)
            (\<lambda>capacity.
               if capacity \<noteq> 0 \<and> capacity > 0
               then ebind (decimal_div availability_capacity capacity)
                      (\<lambda>q. Inr (report\<lparr>r_availability_factor := Some (q * 100)\<rparr>))
               else Inr report))"

definition calculations_plant_heat_rate :: "DailyReport \<Rightarrow> error + DailyReport" where
  "calculations_plant_heat_rate report =
     (case r_energy_generated report of
        None \<Rightarrow> Inr report
      | Some energy_generated \<Rightarrow>
          (if energy_generated \<noteq> 0 \<and> r_gas_consumed report \<noteq> 0 \<and> energy_generated > 0
           then ebind (decimal_times_float (r_gas_consumed report) (35314 / 1000))
                  (\<lambda>gas_mmBtu.
                     ebind (decimal_div energy_generated 1000)
                       (\<lambda>k. ebind (decimal_div gas_mmBtu k)
                          (\<lambda>q. Inr (report\<lparr>r_plant_heat_rate := Some q\<rparr>))))
           else Inr report))"

definition calculations_thermal_efficiency :: "DailyReport \<Rightarrow> error + DailyReport" where
  "calculations_thermal_efficiency report =
     (case r_plant_heat_rate report of
        None \<Rightarrow> Inr report
      | Some plant_heat_rate \<Rightarrow>
          (if plant_heat_rate \<noteq> 0 \<and> plant_heat_rate > 0
           then ebind (decimal_div 3412 plant_heat_rate)
                  (\<lambda>q. Inr (report\<lparr>r_thermal_efficiency := Some (q * 100)\<rparr>))
           else Inr report))"

definition calculations_availability_forecast :: "DailyReport \<Rightarrow> DailyReport" where
  "calculations_availability_forecast report =
     (case r_availability_capacity report of
        None \<Rightarrow> report
      | Some availability_capacity \<Rightarrow>
          report\<lparr>r_availability_forecast := Some (availability_capacity * 24)\<rparr>)"

definition calculations_dependability_index :: "DailyReport \<Rightarrow> error + DailyReport" where
  "calculations_dependability_index report =
     (case r_availability_forecast report of
        None \<Rightarrow> Inr report
      | Some availability_forecast \<Rightarrow>
          (if availability_forecast \<noteq> 0 \<and> availability_forecast > 0
           then (case r_energy_generated report of
                   None \<Rightarrow> Inr report
                 | Some energy_generated \<Rightarrow>
                     ebind (decimal_div energy_generated availability_forecast)
                       (\<lambda>q. Inr (report\<lparr>r_dependability_index := Some (q * 100)\<rparr>)))
           else Inr report))"

definition calculations_avg_energy_sent_out :: "DailyReport \<Rightarrow> error + DailyReport" where
  "calculations_avg_energy_sent_out report =
     (case r_total_energy_exported report of
        None \<Rightarrow> Inr report
      | Some total_energy_exported \<Rightarrow>
          (if total_energy_exported \<noteq> 0
           then ebind (decimal_div total_energy_exported 24)
                  (\<lambda>q. Inr (report\<lparr>r_avg_energy_sent_out := Some q\<rparr>))
           else Inr report))"

definition calculations_gas_utilization :: "DailyReport \<Rightarrow> error + DailyReport" where
  "calculations_gas_utilization report =
     (if r_gas_consumed report \<noteq> 0 \<and> r_gas_consumed report > 0
      then (case r_energy_generated report of
              None \<Rightarrow> Inr report
            | Some energy_generated \<Rightarrow>
                ebind (decimal_div energy_generated (r_gas_consumed report))
                  (\<lambda>q. Inr (report\<lparr>r_gas_utilization := Some q\<rparr>)))
      else Inr report)"

definition calculations_load_factor :: "PowerPlant \<Rightarrow> DailyReport \<Rightarrow> error + DailyReport" where
  "calculations_load_factor power_plant report =
     ebind (installed_capacity power_plant)
       (\<lambda>capacity.
          if capacity \<noteq> 0 \<and> capacity > 0
          then (case r_total_energy_exported report of
                  None \<Rightarrow> Inr report
                | Some total_energy_exported \<Rightarrow>
                    (let full_potential = capacity * 24
                     in ebind (decimal_div total_energy_exported full_potential)
                          (\<lambda>q. Inr (report\<lparr>r_load_factor := Some (q * 100)\<rparr>))))
          else Inr report)"

text \<open>Lines 40 to 88, on the report as \<^verbatim>\<open>_update_energy_totals\<close> left it.\<close>

definition calculations_metrics :: "PowerPlant \<Rightarrow> DailyReport \<Rightarrow> error + DailyReport" where
  "calculations_metrics power_plant report =
     ebind (calculations_availability_factor power_plant
              (calculations_energy_consumed (calculations_defaults report)))
       (\<lambda>r2. ebind (calculations_plant_heat_rate r2)
       (\<lambda>r3. ebind (calculations_thermal_efficiency r3)
       (\<lambda>r4. ebind (calculations_dependability_index (calculations_availability_forecast r4))
       (\<lambda>r6. ebind (calculations_avg_energy_sent_out r6)
       (\<lambda>r7. ebind (calculations_gas_utilization r7)
       (\<lambda>r8. calculations_load_factor power_plant r8))))))"

text \<open>
  The method: the two early returns leave the database as it is; an exception on the way to
  the commit of line 91 leaves nothing committed.
\<close>

definition calculations_calculate_and_update_all_metrics :: "db \<Rightarrow> uuid \<Rightarrow> error + db" where
  "calculations_calculate_and_update_all_metrics d report_id =
     (case find (\<lambda>r. r_id r = report_id) (daily_reports d) of
        None \<Rightarrow> Inr d
      | Some report \<Rightarrow>
          (case find (\<lambda>p. p_id p = r_power_plant_id report) (power_plants d) of
             None \<Rightarrow> Inr d
           | Some power_plant \<Rightarrow>
               ebind (calculations_update_energy_totals d report)
                 (\<lambda>totals.
                    ebind (calculations_metrics power_plant (snd totals))
                      (\<lambda>r'. Inr ((fst totals)\<lparr>daily_reports :=
                                   update_first (\<lambda>r. r_id r = report_id) (\<lambda>_. r')
                                     (daily_reports (fst totals))\<rparr>)))))"

section \<open>The update endpoints\<close>

text \<open>
  \<^verbatim>\<open>update_hourly_readings\<close> and \<^verbatim>\<open>update_daily_report\<close>. The request bodies
  are the pydantic schemas; the clock is the argument \<open>now\<close>; a new row gets a primary
  key not in its table. Each function returns the committed database together with the
  response or the HTTP error raised.
\<close>

record HourlyReadingUpdate =
  hu_turbine_id :: int
  hu_hour :: int
  hu_energy_generated :: rat

record TurbineStatsUpdate =
  tu_turbine_id :: int
  tu_operating_hours :: "rat option"
  tu_startup_count :: "int option"
  tu_shutdown_count :: "int option"
  tu_trips :: "int option"
  tu_energy_generated :: "rat option"
  tu_energy_exported :: "rat option"

record DailyReportUpdate =
  du_gas_loss :: "rat option"
  du_ncc_loss :: "rat option"
  du_internal_loss :: "rat option"
  du_gas_consumed :: "rat option"
  du_declaration_total :: "rat option"
  du_availability_capacity :: "rat option"
  du_turbine_stats :: "TurbineStatsUpdate list option"

definition new_uuid :: "uuid list \<Rightarrow> uuid" where
  "new_uuid ids = Suc (fold max ids 0)"

fun hourly_readings_loop ::
  "uuid \<Rightarrow> int \<Rightarrow> Turbine list \<Rightarrow> HourlyReadingUpdate list \<Rightarrow> TurbineHourlyGeneration list
     \<Rightarrow> error + TurbineHourlyGeneration list" where
  "hourly_readings_loop report_id plant_id ts [] hourly = Inr hourly"
| "hourly_readings_loop report_id plant_id ts (reading # readings) hourly =
     (case find (\<lambda>t. t_id t = hu_turbine_id reading \<and> t_power_plant_id t = plant_id) ts of
        None \<Rightarrow> Inl HTTP_404_NOT_FOUND
      | Some turbine \<Rightarrow>
          (case find (\<lambda>h. h_daily_report_id h = report_id \<and> h_turbine_id h = hu_turbine_id reading
                            \<and> h_hour h = hu_hour reading) hourly of
             Some existing_reading \<Rightarrow>
               hourly_readings_loop report_id plant_id ts readings
                 (update_first (\<lambda>h. h_daily_report_id h = report_id \<and> h_turbine_id h = hu_turbine_id reading
                                    \<and> h_hour h = hu_hour reading)
                    (\<lambda>h. h\<lparr>h_energy_generated := hu_energy_generated reading\<rparr>) hourly)
           | None \<Rightarrow>
               hourly_readings_loop report_id plant_id ts readings
                 (hourly @ [\<lparr>h_id = new_uuid (map h_id hourly), h_daily_report_id = report_id,
                             h_turbine_id = hu_turbine_id reading, h_hour = hu_hour reading,
                             h_energy_generated = hu_energy_generated reading\<rparr>])))"

definition update_hourly_readings ::
  "db \<Rightarrow> uuid \<Rightarrow> HourlyReadingUpdate list \<Rightarrow> User \<Rightarrow> int
     \<Rightarrow> db \<times> (error + TurbineHourlyGeneration list)" where
  "update_hourly_readings d report_id readings current_user now =
     (case find (\<lambda>r. r_id r = report_id) (daily_reports d) of
        None \<Rightarrow> (d, Inl HTTP_404_NOT_FOUND)
      | Some daily_report \<Rightarrow>
          (let past_deadline = (now > (r_date daily_report + 1) * 86400 + 12 * 3600)
           in if u_role current_user \<noteq> EDITOR
                   \<and> u_power_plant_id current_user \<noteq> Some (r_power_plant_id daily_report)
              then (d, Inl HTTP_403_FORBIDDEN)
              else if u_role current_user \<noteq> EDITOR \<and> past_deadline
              then (d, Inl HTTP_403_FORBIDDEN)
              else
                (case hourly_readings_loop report_id (r_power_plant_id daily_report) (turbines d)
                        readings (turbine_hourly_generations d) of
                   Inl e \<Rightarrow> (d, Inl e)
                 | Inr hourly \<Rightarrow>
                     (let report1 = (if past_deadline \<and> \<not> r_is_late_submission daily_report
                                     then daily_report\<lparr>r_is_late_submission := True\<rparr>
                                     else daily_report);
                          report2 = report1\<lparr>r_last_modified_by_id := Some (u_id current_user),
                                            r_updated_at := Some now\<rparr>
                      in (d\<lparr>turbine_hourly_generations := hourly,
                            daily_reports :=
                              update_first (\<lambda>r. r_id r = report_id) (\<lambda>_. report2) (daily_reports d)\<rparr>,
                          Inr (List.map_filter
                                 (\<lambda>reading. find (\<lambda>h. h_daily_report_id h = report_id
                                                      \<and> h_turbine_id h = hu_turbine_id reading
                                                      \<and> h_hour h = hu_hour reading) hourly)
                                 readings))))))"

definition apply_stats_update :: "TurbineStatsUpdate \<Rightarrow> TurbineDailyStats \<Rightarrow> TurbineDailyStats" where
  "apply_stats_update turbine_stat existing_stat =
     existing_stat
       \<lparr>s_operating_hours :=
          (case tu_operating_hours turbine_stat of None \<Rightarrow> s_operating_hours existing_stat | Some v \<Rightarrow> v),
        s_startup_count :=
          (case tu_startup_count turbine_stat of None \<Rightarrow> s_startup_count existing_stat | Some v \<Rightarrow> v),
        s_shutdown_count :=
          (case tu_shutdown_count turbine_stat of None \<Rightarrow> s_shutdown_count existing_stat | Some v \<Rightarrow> v),
        s_trips :=
          (case tu_trips turbine_stat of None \<Rightarrow> s_trips existing_stat | Some v \<Rightarrow> v),
        s_energy_generated :=
          (case tu_energy_generated turbine_stat of None \<Rightarrow> s_energy_generated existing_stat | Some v \<Rightarrow> v),
        s_energy_exported :=
          (case tu_energy_exported turbine_stat of None \<Rightarrow> s_energy_exported existing_stat | Some v \<Rightarrow> v)\<rparr>"

definition new_stats :: "uuid \<Rightarrow> uuid \<Rightarrow> TurbineStatsUpdate \<Rightarrow> TurbineDailyStats" where
  "new_stats key report_id turbine_stat =
     \<lparr>s_id = key, s_daily_report_id = report_id, s_turbine_id = tu_turbine_id turbine_stat,
      s_energy_generated = (case tu_energy_generated turbine_stat of None \<Rightarrow> 0 | Some v \<Rightarrow> v),
      s_energy_exported = (case tu_energy_exported turbine_stat of None \<Rightarrow> 0 | Some v \<Rightarrow> v),
      s_operating_hours = (case tu_operating_hours turbine_stat of None \<Rightarrow> 0 | Some v \<Rightarrow> v),
      s_startup_count = (case tu_startup_count turbine_stat of None \<Rightarrow> 0 | Some v \<Rightarrow> v),
      s_shutdown_count = (case tu_shutdown_count turbine_stat of None \<Rightarrow> 0 | Some v \<Rightarrow> v),
      s_trips = (case tu_trips turbine_stat of None \<Rightarrow> 0 | Some v \<Rightarrow> v)\<rparr>"

text \<open>
  The loop over \<^verbatim>\<open>report_in.turbine_stats\<close> commits at the end of each round, the
  changed report with it; a turbine that is not of the plant raises with the earlier rounds
  committed.
\<close>

fun turbine_stats_loop ::
  "uuid \<Rightarrow> DailyReport \<Rightarrow> TurbineStatsUpdate list \<Rightarrow> db \<Rightarrow> db \<times> (error + unit)" where
  "turbine_stats_loop report_id report [] d = (d, Inr ())"
| "turbine_stats_loop report_id report (turbine_stat # rest) d =
     (case find (\<lambda>t. t_id t = tu_turbine_id turbine_stat
                      \<and> t_power_plant_id t = r_power_plant_id report) (turbines d) of
        None \<Rightarrow> (d, Inl HTTP_404_NOT_FOUND)
      | Some turbine \<Rightarrow>
          turbine_stats_loop report_id report rest
            (d\<lparr>turbine_daily_stats :=
                 (case find (\<lambda>s. s_daily_report_id s = report_id
                                  \<and> s_turbine_id s = tu_turbine_id turbine_stat) (turbine_daily_stats d) of
                    Some existing_stat \<Rightarrow>
                      update_first (\<lambda>s. s_daily_report_id s = report_id
                                         \<and> s_turbine_id s = tu_turbine_id turbine_stat)
                        (apply_stats_update turbine_stat) (turbine_daily_stats d)
                  | None \<Rightarrow>
                      turbine_daily_stats d
                        @ [new_stats (new_uuid (map s_id (turbine_daily_stats d))) report_id turbine_stat]),
               daily_reports :=
                 update_first (\<lambda>r. r_id r = report_id) (\<lambda>_. report) (daily_reports d)\<rparr>))"

definition apply_report_update :: "DailyReportUpdate \<Rightarrow> DailyReport \<Rightarrow> DailyReport" where
  "apply_report_update report_in report =
     report
       \<lparr>r_gas_loss := (case du_gas_loss report_in of None \<Rightarrow> r_gas_loss report | Some v \<Rightarrow> v),
        r_ncc_loss := (case du_ncc_loss report_in of None \<Rightarrow> r_ncc_loss report | Some v \<Rightarrow> v),
        r_internal_loss :=
          (case du_internal_loss report_in of None \<Rightarrow> r_internal_loss report | Some v \<Rightarrow> v),
        r_gas_consumed :=
          (case du_gas_consumed report_in of None \<Rightarrow> r_gas_consumed report | Some v \<Rightarrow> v),
        r_declaration_total :=
          (case du_declaration_total report_in of None \<Rightarrow> r_declaration_total report | Some v \<Rightarrow> Some v),
        r_availability_capacity :=
          (case du_availability_capacity report_in of
             None \<Rightarrow> r_availability_capacity report | Some v \<Rightarrow> Some v)\<rparr>"

definition update_daily_report ::
  "db \<Rightarrow> uuid \<Rightarrow> DailyReportUpdate \<Rightarrow> User \<Rightarrow> int \<Rightarrow> db \<times> (error + DailyReport option)" where
  "update_daily_report d report_id report_in current_user now =
     (case find (\<lambda>r. r_id r = report_id) (daily_reports d) of
        None \<Rightarrow> (d, Inl HTTP_404_NOT_FOUND)
      | Some report \<Rightarrow>
          (let past_deadline =
                 (case r_submission_deadline report of None \<Rightarrow> False | Some deadline \<Rightarrow> now > deadline)
           in if u_role current_user \<noteq> EDITOR
                   \<and> u_power_plant_id current_user \<noteq> Some (r_power_plant_id report)
              then (d, Inl HTTP_403_FORBIDDEN)
              else if u_role current_user \<noteq> EDITOR \<and> past_deadline
              then (d, Inl HTTP_403_FORBIDDEN)
              else
                (let report1 = (if past_deadline \<and> \<not> r_is_late_submission report
                                then report\<lparr>r_is_late_submission := True\<rparr> else report);
                     report2 = apply_report_update report_in report1
                 in case turbine_stats_loop report_id report2
                           (case du_turbine_stats report_in of None \<Rightarrow> [] | Some l \<Rightarrow> l) d of
                      (d1, Inl e) \<Rightarrow> (d1, Inl e)
                    | (d1, Inr u) \<Rightarrow>
                        (let report3 = report2\<lparr>r_last_modified_by_id := Some (u_id current_user),
                                               r_updated_at := Some now\<rparr>;
                             d2 = d1\<lparr>daily_reports :=
                                      update_first (\<lambda>r. r_id r = report_id) (\<lambda>_. report3)
                                        (daily_reports d1)\<rparr>
                         in case service_calculate_and_update_all_metrics d2 report_id of
                              Inl e \<Rightarrow> (d2, Inl e)
                            | Inr d3 \<Rightarrow>
                                (d3, Inr (find (\<lambda>r. r_id r = report_id) (daily_reports d3)))))))"

section \<open>Reading the database\<close>

text \<open>
  The queries of the metric code, named, and the sums that the specification speaks of:
  the sums over a report's daily-stat rows and over its hourly rows.
\<close>

abbreviation report_of :: "db \<Rightarrow> uuid \<Rightarrow> DailyReport option" where
  "report_of d report_id \<equiv> find (\<lambda>r. r_id r = report_id) (daily_reports d)"

abbreviation plant_of :: "db \<Rightarrow> DailyReport \<Rightarrow> PowerPlant option" where
  "plant_of d report \<equiv> find (\<lambda>p. p_id p = r_power_plant_id report) (power_plants d)"

abbreviation morning_of :: "db \<Rightarrow> DailyReport \<Rightarrow> MorningReading option" where
  "morning_of d report \<equiv>
     find (\<lambda>m. m_date m = r_date report \<and> m_power_plant_id m = r_power_plant_id report)
       (morning_readings d)"

abbreviation stats_of :: "db \<Rightarrow> uuid \<Rightarrow> TurbineDailyStats list" where
  "stats_of d report_id \<equiv> filter (\<lambda>s. s_daily_report_id s = report_id) (turbine_daily_stats d)"

abbreviation hourly_of :: "db \<Rightarrow> uuid \<Rightarrow> TurbineHourlyGeneration list" where
  "hourly_of d report_id \<equiv>
     filter (\<lambda>h. h_daily_report_id h = report_id) (turbine_hourly_generations d)"


definition daily_generated :: "db \<Rightarrow> uuid \<Rightarrow> rat" where
  "daily_generated d report_id = sum_list (map s_energy_generated (stats_of d report_id))"

definition daily_exported :: "db \<Rightarrow> uuid \<Rightarrow> rat" where
  "daily_exported d report_id = sum_list (map s_energy_exported (stats_of d report_id))"

definition hourly_generated :: "db \<Rightarrow> uuid \<Rightarrow> rat" where
  "hourly_generated d report_id = sum_list (map h_energy_generated (hourly_of d report_id))"

text \<open>The stored report after a run of an engine; nothing when the run raised.\<close>

definition report_after :: "error + db \<Rightarrow> uuid \<Rightarrow> DailyReport option" where
  "report_after result report_id =
     (case result of Inl e \<Rightarrow> None | Inr d \<Rightarrow> report_of d report_id)"

text \<open>The eleven derived fields, in the order of \<^verbatim>\<open>models/daily_report.py\<close>.\<close>

definition derived_fields :: "DailyReport \<Rightarrow> rat option list" where
  "derived_fields r =
     [r_availability_factor r, r_plant_heat_rate r, r_thermal_efficiency r, r_energy_generated r,
      r_total_energy_exported r, r_energy_consumed r, r_availability_forecast r,
      r_dependability_index r, r_avg_energy_sent_out r, r_gas_utilization r, r_load_factor r]"

text \<open>A report without the fields that record who modified it, when, and whether late.\<close>

definition without_modification_fields :: "DailyReport \<Rightarrow> DailyReport" where
  "without_modification_fields r =
     r\<lparr>r_updated_at := None, r_last_modified_by_id := None, r_is_late_submission := False\<rparr>"

section \<open>Sample data\<close>

text \<open>
  A report as \<^verbatim>\<open>create_daily_report\<close> stores it before the first computation, a plant
  of 100 MW with two turbines, and the rows of the scenarios of the specification.
\<close>

definition new_report :: DailyReport where
  "new_report =
     \<lparr>r_id = 1, r_date = 0, r_power_plant_id = 1, r_gas_loss = 0, r_ncc_loss = 0,
      r_internal_loss = 0, r_gas_consumed = 0, r_declaration_total = None,
      r_availability_capacity = None, r_availability_factor = None, r_plant_heat_rate = None,
      r_thermal_efficiency = None, r_energy_generated = None, r_total_energy_exported = None,
      r_energy_consumed = None, r_availability_forecast = None, r_dependability_index = None,
      r_avg_energy_sent_out = None, r_gas_utilization = None, r_load_factor = None,
      r_updated_at = None, r_submission_deadline = None, r_is_late_submission = False,
      r_last_modified_by_id = None\<rparr>"

definition plant :: "rat \<Rightarrow> PowerPlant" where
  "plant capacity = \<lparr>p_id = 1, p_total_capacity = capacity\<rparr>"

definition stat :: "int \<Rightarrow> rat \<Rightarrow> rat \<Rightarrow> TurbineDailyStats" where
  "stat turbine generated exported =
     \<lparr>s_id = nat turbine, s_daily_report_id = 1, s_turbine_id = turbine,
      s_energy_generated = generated, s_energy_exported = exported, s_operating_hours = 24,
      s_startup_count = 0, s_shutdown_count = 0, s_trips = 0\<rparr>"

definition hourly :: "int \<Rightarrow> int \<Rightarrow> rat \<Rightarrow> TurbineHourlyGeneration" where
  "hourly turbine hour generated =
     \<lparr>h_id = nat hour, h_daily_report_id = 1, h_turbine_id = turbine, h_hour = hour,
      h_energy_generated = generated\<rparr>"

definition sample_db ::
  "DailyReport \<Rightarrow> rat \<Rightarrow> TurbineDailyStats list \<Rightarrow> TurbineHourlyGeneration list
     \<Rightarrow> MorningReading list \<Rightarrow> db" where
  "sample_db report capacity stats hourly_rows mornings =
     \<lparr>daily_reports = [report], turbine_daily_stats = stats,
      turbine_hourly_generations = hourly_rows, power_plants = [plant capacity],
      morning_readings = mornings,
      turbines = [\<lparr>t_id = 1, t_power_plant_id = 1\<rparr>, \<lparr>t_id = 2, t_power_plant_id = 1\<rparr>]\<rparr>"

definition morning :: "rat \<Rightarrow> rat \<Rightarrow> MorningReading" where
  "morning declaration availability =
     \<lparr>m_id = 1, m_date = 0, m_power_plant_id = 1, m_declaration_total = declaration,
      m_availability_capacity = availability\<rparr>"

definition editor :: User where
  "editor = \<lparr>u_id = 7, u_role = EDITOR, u_power_plant_id = None\<rparr>"

definition no_update :: DailyReportUpdate where
  "no_update =
     \<lparr>du_gas_loss = None, du_ncc_loss = None, du_internal_loss = None, du_gas_consumed = None,
      du_declaration_total = None, du_availability_capacity = None, du_turbine_stats = None\<rparr>"

definition stats_update :: "int \<Rightarrow> rat \<Rightarrow> rat \<Rightarrow> TurbineStatsUpdate" where
  "stats_update turbine generated exported =
     \<lparr>tu_turbine_id = turbine, tu_operating_hours = None, tu_startup_count = None,
      tu_shutdown_count = None, tu_trips = None, tu_energy_generated = Some generated,
      tu_energy_exported = Some exported\<rparr>"

definition reading :: "int \<Rightarrow> int \<Rightarrow> rat \<Rightarrow> HourlyReadingUpdate" where
  "reading turbine hour generated =
     \<lparr>hu_turbine_id = turbine, hu_hour = hour, hu_energy_generated = generated\<rparr>"

section \<open>Tables\<close>

lemma find_update_first_const:
  "find P xs = Some x \<Longrightarrow> P y \<Longrightarrow> find P (update_first P (\<lambda>_. y) xs) = Some y"
  by (induction xs) (auto split: if_splits)

lemma update_first_not_found: "find P xs = None \<Longrightarrow> update_first P f xs = xs"
  by (induction xs) (auto split: if_splits)

lemma update_first_const_twice:
  "P y \<Longrightarrow> update_first P (\<lambda>_. y) (update_first P (\<lambda>_. y) xs) = update_first P (\<lambda>_. y) xs"
  by (induction xs) auto

lemma update_first_idem:
  "(\<And>x. P x \<Longrightarrow> P (f x) \<and> f (f x) = f x) \<Longrightarrow>
   update_first P f (update_first P f xs) = update_first P f xs"
  by (induction xs) auto

lemma map_update_first:
  "(\<And>x. P x \<Longrightarrow> k (f x) = k x) \<Longrightarrow> map k (update_first P f xs) = map k xs"
  by (induction xs) auto

lemma filter_update_first_other:
  "(\<And>x. P x \<Longrightarrow> \<not> Q x \<and> \<not> Q (f x)) \<Longrightarrow> filter Q (update_first P f xs) = filter Q xs"
  by (induction xs) auto

lemma find_update_first_other:
  "(\<And>x. P x \<Longrightarrow> \<not> Q x \<and> \<not> Q (f x)) \<Longrightarrow> find Q (update_first P f xs) = find Q xs"
  by (induction xs) auto

lemma find_update_first_same:
  "(\<And>x. P x \<Longrightarrow> P (f x)) \<Longrightarrow> find P (update_first P f xs) = map_option f (find P xs)"
  by (induction xs) auto

lemma update_first_commute:
  assumes "\<And>x. P x \<Longrightarrow> \<not> Q x \<and> \<not> Q (f x) \<and> P (f x)"
    and "\<And>x. Q x \<Longrightarrow> \<not> P x \<and> \<not> P (g x) \<and> Q (g x)"
  shows "update_first P f (update_first Q g xs) = update_first Q g (update_first P f xs)"
  using assms by (induction xs) auto

section \<open>The blocks of the service, without their error cases\<close>

text \<open>
  No block can raise: each guard excludes the zero divisor. A block is then an update of
  one field, by the new value where the guard holds and by the old one elsewhere.
\<close>

lemma ebind_Inr [simp]: "ebind (Inr v) f = f v"
  by (simp add: ebind_def)

lemma ebind_Inl [simp]: "ebind (Inl e) f = Inl e"
  by (simp add: ebind_def)

lemma decimal_div_nonzero: "b \<noteq> 0 \<Longrightarrow> decimal_div a b = Inr (a / b)"
  by (simp add: decimal_div_def)

lemma decimal_div_24 [simp]: "decimal_div a 24 = Inr (a / 24)"
  by (simp add: decimal_div_def)

lemma service_availability_factor_eq:
  "service_availability_factor pp r =
     Inr (r_availability_factor_update
            (\<lambda>old. if truthy (r_availability_capacity r) \<and> p_total_capacity pp > 0
                   then Some (the (r_availability_capacity r) / p_total_capacity pp * 100)
                   else old) r)"
  by (simp add: service_availability_factor_def truthy_def decimal_div_nonzero split: option.split)

lemma service_availability_forecast_eq:
  "service_availability_forecast r =
     r_availability_forecast_update
       (\<lambda>old. if truthy (r_declaration_total r) then Some (the (r_declaration_total r) * 24)
              else old) r"
  by (simp add: service_availability_forecast_def truthy_def split: option.split)

lemma service_dependability_index_eq:
  "service_dependability_index g r =
     Inr (r_dependability_index_update
            (\<lambda>old. if truthy (r_availability_forecast r) \<and> the (r_availability_forecast r) > 0
                   then Some (g / the (r_availability_forecast r) * 100)
                   else old) r)"
  by (simp add: service_dependability_index_def truthy_def decimal_div_nonzero split: option.split)

lemma service_avg_energy_sent_out_eq:
  "service_avg_energy_sent_out e r = Inr (r\<lparr>r_avg_energy_sent_out := Some (e / 24)\<rparr>)"
  by (simp add: service_avg_energy_sent_out_def)

lemma service_gas_utilization_eq:
  "service_gas_utilization g r =
     Inr (r_gas_utilization_update
            (\<lambda>old. if r_gas_consumed r > 0 then Some (g / r_gas_consumed r) else old) r)"
  by (simp add: service_gas_utilization_def decimal_div_nonzero)

lemma service_plant_heat_rate_eq:
  "service_plant_heat_rate r =
     Inr (r_plant_heat_rate_update
            (\<lambda>old. if truthy (r_gas_utilization r) \<and> the (r_gas_utilization r) > 0
                   then Some (1047600 / the (r_gas_utilization r))
                   else old) r)"
  by (simp add: service_plant_heat_rate_def truthy_def decimal_div_nonzero split: option.split)

lemma service_thermal_efficiency_eq:
  "service_thermal_efficiency r =
     Inr (r_thermal_efficiency_update
            (\<lambda>old. if truthy (r_plant_heat_rate r) \<and> the (r_plant_heat_rate r) > 0
                   then Some (3600 / the (r_plant_heat_rate r) * 100)
                   else old) r)"
  by (simp add: service_thermal_efficiency_def truthy_def decimal_div_nonzero split: option.split)

lemma service_load_factor_eq:
  "service_load_factor pp g r =
     Inr (r_load_factor_update
            (\<lambda>old. if p_total_capacity pp \<noteq> 0 \<and> g \<noteq> 0
                   then Some (g / 24 / p_total_capacity pp * 100)
                   else old) r)"
  by (simp add: service_load_factor_def decimal_div_nonzero)

lemma service_copy_declaration_eq:
  "service_copy_declaration mr r =
     r_declaration_total_update
       (\<lambda>old. case mr of None \<Rightarrow> old
              | Some m \<Rightarrow> if truthy old then old else Some (m_declaration_total m)) r"
  by (simp add: service_copy_declaration_def split: option.split)

lemma service_copy_availability_eq:
  "service_copy_availability mr r =
     r_availability_capacity_update
       (\<lambda>old. case mr of None \<Rightarrow> old
              | Some m \<Rightarrow> if truthy old then old else Some (m_availability_capacity m)) r"
  by (simp add: service_copy_availability_def split: option.split)

lemmas service_step_eqs =
  service_availability_factor_eq service_availability_forecast_eq service_dependability_index_eq
  service_avg_energy_sent_out_eq service_gas_utilization_eq service_plant_heat_rate_eq
  service_thermal_efficiency_eq service_load_factor_eq service_copy_declaration_eq
  service_copy_availability_eq

lemma service_metrics_total: "\<exists>r'. service_metrics pp mr stats r = Inr r'"
  by (simp add: service_metrics_def Let_def service_step_eqs split del: if_split)


lemma service_metrics_fields:
  assumes "service_metrics pp mr stats r = Inr r'"
  shows "r_energy_generated r' = Some (sum_list (map s_energy_generated stats))"
    and "r_total_energy_exported r' = Some (sum_list (map s_energy_exported stats))"
    and "r_energy_consumed r' =
           Some (sum_list (map s_energy_generated stats) - sum_list (map s_energy_exported stats))"
    and "r_avg_energy_sent_out r' = Some (sum_list (map s_energy_exported stats) / 24)"
    and "r_declaration_total r' =
           (case mr of None \<Rightarrow> r_declaration_total r
            | Some m \<Rightarrow> if truthy (r_declaration_total r) then r_declaration_total r
                        else Some (m_declaration_total m))"
    and "r_availability_capacity r' =
           (case mr of None \<Rightarrow> r_availability_capacity r
            | Some m \<Rightarrow> if truthy (r_availability_capacity r) then r_availability_capacity r
                        else Some (m_availability_capacity m))"
    and "r_availability_factor r' =
           (if truthy (r_availability_capacity r') \<and> p_total_capacity pp > 0
            then Some (the (r_availability_capacity r') / p_total_capacity pp * 100)
            else r_availability_factor r)"
    and "r_availability_forecast r' =
           (if truthy (r_declaration_total r') then Some (the (r_declaration_total r') * 24)
            else r_availability_forecast r)"
    and "r_dependability_index r' =
           (if truthy (r_availability_forecast r') \<and> the (r_availability_forecast r') > 0
            then Some (sum_list (map s_energy_generated stats) / the (r_availability_forecast r') * 100)
            else r_dependability_index r)"
    and "r_gas_utilization r' =
           (if r_gas_consumed r > 0
            then Some (sum_list (map s_energy_generated stats) / r_gas_consumed r)
            else r_gas_utilization r)"
    and "r_plant_heat_rate r' =
           (if truthy (r_gas_utilization r') \<and> the (r_gas_utilization r') > 0
            then Some (1047600 / the (r_gas_utilization r'))
            else r_plant_heat_rate r)"
    and "r_thermal_efficiency r' =
           (if truthy (r_plant_heat_rate r') \<and> the (r_plant_heat_rate r') > 0
            then Some (3600 / the (r_plant_heat_rate r') * 100)
            else r_thermal_efficiency r)"
    and "r_load_factor r' =
           (if p_total_capacity pp \<noteq> 0 \<and> sum_list (map s_energy_generated stats) \<noteq> 0
            then Some (sum_list (map s_energy_generated stats) / 24 / p_total_capacity pp * 100)
            else r_load_factor r)"
    and "r_id r' = r_id r" and "r_date r' = r_date r" and "r_power_plant_id r' = r_power_plant_id r"
    and "r_gas_loss r' = r_gas_loss r" and "r_ncc_loss r' = r_ncc_loss r"
    and "r_internal_loss r' = r_internal_loss r" and "r_gas_consumed r' = r_gas_consumed r"
    and "r_updated_at r' = r_updated_at r" and "r_submission_deadline r' = r_submission_deadline r"
    and "r_is_late_submission r' = r_is_late_submission r"
    and "r_last_modified_by_id r' = r_last_modified_by_id r"
    and "DailyReport.more r' = DailyReport.more r"
proof -
  have e: "r' = projr (service_metrics pp mr stats r)"
    using assms by simp
  show "r_energy_generated r' = Some (sum_list (map s_energy_generated stats))"
    and "r_total_energy_exported r' = Some (sum_list (map s_energy_exported stats))"
    and "r_energy_consumed r' =
           Some (sum_list (map s_energy_generated stats) - sum_list (map s_energy_exported stats))"
    and "r_avg_energy_sent_out r' = Some (sum_list (map s_energy_exported stats) / 24)"
    and "r_declaration_total r' =
           (case mr of None \<Rightarrow> r_declaration_total r
            | Some m \<Rightarrow> if truthy (r_declaration_total r) then r_declaration_total r
                        else Some (m_declaration_total m))"
    and "r_availability_capacity r' =
           (case mr of None \<Rightarrow> r_availability_capacity r
            | Some m \<Rightarrow> if truthy (r_availability_capacity r) then r_availability_capacity r
                        else Some (m_availability_capacity m))"
    and "r_availability_factor r' =
           (if truthy (r_availability_capacity r') \<and> p_total_capacity pp > 0
            then Some (the (r_availability_capacity r') / p_total_capacity pp * 100)
            else r_availability_factor r)"
    and "r_availability_forecast r' =
           (if truthy (r_declaration_total r') then Some (the (r_declaration_total r') * 24)
            else r_availability_forecast r)"
    and "r_dependability_index r' =
           (if truthy (r_availability_forecast r') \<and> the (r_availability_forecast r') > 0
            then Some (sum_list (map s_energy_generated stats) / the (r_availability_forecast r') * 100)
            else r_dependability_index r)"
    and "r_gas_utilization r' =
           (if r_gas_consumed r > 0
            then Some (sum_list (map s_energy_generated stats) / r_gas_consumed r)
            else r_gas_utilization r)"
    and "r_plant_heat_rate r' =
           (if truthy (r_gas_utilization r') \<and> the (r_gas_utilization r') > 0
            then Some (1047600 / the (r_gas_utilization r'))
            else r_plant_heat_rate r)"
    and "r_thermal_efficiency r' =
           (if truthy (r_plant_heat_rate r') \<and> the (r_plant_heat_rate r') > 0
            then Some (3600 / the (r_plant_heat_rate r') * 100)
            else r_thermal_efficiency r)"
    and "r_load_factor r' =
           (if p_total_capacity pp \<noteq> 0 \<and> sum_list (map s_energy_generated stats) \<noteq> 0
            then Some (sum_list (map s_energy_generated stats) / 24 / p_total_capacity pp * 100)
            else r_load_factor r)"
    and "r_id r' = r_id r" and "r_date r' = r_date r" and "r_power_plant_id r' = r_power_plant_id r"
    and "r_gas_loss r' = r_gas_loss r" and "r_ncc_loss r' = r_ncc_loss r"
    and "r_internal_loss r' = r_internal_loss r" and "r_gas_consumed r' = r_gas_consumed r"
    and "r_updated_at r' = r_updated_at r" and "r_submission_deadline r' = r_submission_deadline r"
    and "r_is_late_submission r' = r_is_late_submission r"
    and "r_last_modified_by_id r' = r_last_modified_by_id r"
    and "DailyReport.more r' = DailyReport.more r"
    unfolding e
    by (simp_all add: service_metrics_def Let_def service_step_eqs service_energy_totals_def
          split del: if_split cong: if_cong option.case_cong)
qed

section \<open>The engines on the database\<close>

lemma find_Some_holds: "find P xs = Some x \<Longrightarrow> P x"
  by (induction xs) (auto split: if_splits)

lemma service_metrics_idem:
  assumes 1: "service_metrics pp mr stats r = Inr r'"
  shows "service_metrics pp mr stats r' = Inr r'"
proof -
  obtain r'' where 2: "service_metrics pp mr stats r' = Inr r''"
    using service_metrics_total by blast
  note f1 = service_metrics_fields [OF 1]
  note f2 = service_metrics_fields [OF 2]
  have decl: "r_declaration_total r'' = r_declaration_total r'"
    unfolding f2(5) unfolding f1(5) by (simp split: option.split)
  have avail: "r_availability_capacity r'' = r_availability_capacity r'"
    unfolding f2(6) unfolding f1(6) by (simp split: option.split)
  have af: "r_availability_factor r'' = r_availability_factor r'"
    unfolding f2(7) avail using f1(7) by simp
  have fc: "r_availability_forecast r'' = r_availability_forecast r'"
    unfolding f2(8) decl using f1(8) by simp
  have di: "r_dependability_index r'' = r_dependability_index r'"
    unfolding f2(9) fc using f1(9) by simp
  have gu: "r_gas_utilization r'' = r_gas_utilization r'"
    unfolding f2(10) f1(20) using f1(10) by simp
  have hr: "r_plant_heat_rate r'' = r_plant_heat_rate r'"
    unfolding f2(11) gu using f1(11) by simp
  have te: "r_thermal_efficiency r'' = r_thermal_efficiency r'"
    unfolding f2(12) hr using f1(12) by simp
  have lf: "r_load_factor r'' = r_load_factor r'"
    unfolding f2(13) using f1(13) by simp
  have "r'' = r'"
    by (rule DailyReport.equality)
       (simp_all add: decl avail af fc di gu hr te lf f2(1-4) f1(1-4) f2(14-25))
  with 2 show ?thesis by simp
qed

lemma service_resolved:
  assumes "report_of d rid = Some r" and "plant_of d r = Some pp"
  shows "\<exists>r'. service_metrics pp (morning_of d r) (stats_of d rid) r = Inr r'
           \<and> service_calculate_and_update_all_metrics d rid =
               Inr (d\<lparr>daily_reports := update_first (\<lambda>x. r_id x = rid) (\<lambda>_. r') (daily_reports d)\<rparr>)
           \<and> report_after (service_calculate_and_update_all_metrics d rid) rid = Some r'"
proof -
  obtain r' where m: "service_metrics pp (morning_of d r) (stats_of d rid) r = Inr r'"
    using service_metrics_total by blast
  have "r_id r = rid"
    using find_Some_holds [OF assms(1)] .
  then have id: "r_id r' = rid"
    using service_metrics_fields(14) [OF m] by simp
  have run: "service_calculate_and_update_all_metrics d rid =
      Inr (d\<lparr>daily_reports := update_first (\<lambda>x. r_id x = rid) (\<lambda>_. r') (daily_reports d)\<rparr>)"
    by (simp add: service_calculate_and_update_all_metrics_def assms m)
  have "report_after (service_calculate_and_update_all_metrics d rid) rid = Some r'"
    unfolding run by (simp add: report_after_def find_update_first_const [OF assms(1)] id)
  with m run show ?thesis by blast
qed

lemma service_unresolved:
  assumes "report_of d rid = None \<or> (\<exists>r. report_of d rid = Some r \<and> plant_of d r = None)"
  shows "service_calculate_and_update_all_metrics d rid = Inr d"
  using assms by (auto simp: service_calculate_and_update_all_metrics_def)

lemma calculations_unresolved:
  assumes "report_of d rid = None \<or> (\<exists>r. report_of d rid = Some r \<and> plant_of d r = None)"
  shows "calculations_calculate_and_update_all_metrics d rid = Inr d"
  using assms by (auto simp: calculations_calculate_and_update_all_metrics_def)

lemma service_idem_db:
  "\<exists>d'. service_calculate_and_update_all_metrics d rid = Inr d'
        \<and> service_calculate_and_update_all_metrics d' rid = Inr d'"
proof (cases "report_of d rid = None \<or> (\<exists>r. report_of d rid = Some r \<and> plant_of d r = None)")
  case True
  then show ?thesis using service_unresolved by blast
next
  case False
  then obtain r pp where r: "report_of d rid = Some r" and pp: "plant_of d r = Some pp"
    by auto
  obtain r' where m: "service_metrics pp (morning_of d r) (stats_of d rid) r = Inr r'"
    and run: "service_calculate_and_update_all_metrics d rid =
      Inr (d\<lparr>daily_reports := update_first (\<lambda>x. r_id x = rid) (\<lambda>_. r') (daily_reports d)\<rparr>)"
    and after: "report_after (service_calculate_and_update_all_metrics d rid) rid = Some r'"
    using service_resolved [OF r pp] by blast
  define d' where "d' = d\<lparr>daily_reports := update_first (\<lambda>x. r_id x = rid) (\<lambda>_. r') (daily_reports d)\<rparr>"
  note f = service_metrics_fields [OF m]
  have id: "r_id r' = rid"
    using f(14) find_Some_holds [OF r] by simp
  have r': "report_of d' rid = Some r'"
    using after unfolding run by (simp add: report_after_def d'_def)
  have pp': "plant_of d' r' = Some pp"
    using pp by (simp add: d'_def f(16))
  have m': "service_metrics pp (morning_of d' r') (stats_of d' rid) r' = Inr r'"
    using service_metrics_idem [OF m] by (simp add: d'_def f(15,16))
  obtain r'' where m'': "service_metrics pp (morning_of d' r') (stats_of d' rid) r' = Inr r''"
    and run': "service_calculate_and_update_all_metrics d' rid =
      Inr (d'\<lparr>daily_reports := update_first (\<lambda>x. r_id x = rid) (\<lambda>_. r'') (daily_reports d')\<rparr>)"
    using service_resolved [OF r' pp'] by blast
  have "r'' = r'" using m' m'' by simp
  then have "service_calculate_and_update_all_metrics d' rid = Inr d'"
    unfolding run' by (simp add: d'_def update_first_const_twice id)
  with run show ?thesis unfolding d'_def by blast
qed

text \<open>
  The second engine on a report whose plant resolves: every path to the commit of line 91
  raises, at line 117 when the report has hourly rows, else at line 56, 62 or 86.
\<close>

lemma ebind_raises: "(\<And>v. \<exists>e. f v = Inl e) \<Longrightarrow> \<exists>e. ebind m f = Inl e"
  by (cases m) simp_all




lemma energy_totals_daily:
  "hourly_of d (r_id r) = [] \<Longrightarrow>
   calculations_update_energy_totals d r =
     Inr (d, r\<lparr>r_energy_generated := Some (sum_list (map s_energy_generated (stats_of d (r_id r)))),
               r_total_energy_exported :=
                 Some (sum_list (map s_energy_exported (stats_of d (r_id r))))\<rparr>)"
  by (simp add: calculations_update_energy_totals_def Let_def)

lemma calculations_metrics_raises: "\<exists>e. calculations_metrics pp r = Inl e"
  unfolding calculations_metrics_def
  by (intro ebind_raises) (simp add: calculations_load_factor_def installed_capacity_def)

lemma calculations_resolved_raises:
  assumes "report_of d rid = Some r" and "plant_of d r = Some pp"
  shows "\<exists>e. calculations_calculate_and_update_all_metrics d rid = Inl e"
proof -
  have "\<exists>e. ebind (calculations_update_energy_totals d r)
               (\<lambda>totals.
                  ebind (calculations_metrics pp (snd totals))
                    (\<lambda>r'. Inr ((fst totals)\<lparr>daily_reports :=
                                 update_first (\<lambda>r. r_id r = rid) (\<lambda>_. r')
                                   (daily_reports (fst totals))\<rparr>))) = Inl e"
  proof (rule ebind_raises)
    fix v :: "db \<times> DailyReport"
    obtain e where "calculations_metrics pp (snd v) = Inl e"
      using calculations_metrics_raises by blast
    then show "\<exists>e. ebind (calculations_metrics pp (snd v))
                      (\<lambda>r'. Inr ((fst v)\<lparr>daily_reports :=
                                   update_first (\<lambda>r. r_id r = rid) (\<lambda>_. r')
                                     (daily_reports (fst v))\<rparr>)) = Inl e"
      by simp
  qed
  then show ?thesis
    using assms by (simp add: calculations_calculate_and_update_all_metrics_def)
qed


text \<open>The run of the service on a report whose plant resolves, and the unfolding of a run on sample data.\<close>

lemma service_totals:
  assumes "report_of d rid = Some r" and "plant_of d r = Some pp"
  shows "\<exists>r'. report_after (service_calculate_and_update_all_metrics d rid) rid = Some r'
           \<and> service_metrics pp (morning_of d r) (stats_of d rid) r = Inr r'"
  using service_resolved [OF assms] by blast

lemmas sample_defs =
  sample_db_def new_report_def plant_def stat_def hourly_def morning_def editor_def no_update_def
  stats_update_def reading_def

lemmas run_defs =
  service_calculate_and_update_all_metrics_def service_metrics_def service_step_eqs
  service_energy_totals_def Let_def truthy_def report_after_def derived_fields_def

lemmas calculations_defs =
  calculations_calculate_and_update_all_metrics_def calculations_update_energy_totals_def
  calculations_update_turbine_stats_from_hourly_def calculations_metrics_def
  calculations_defaults_def calculations_energy_consumed_def calculations_availability_factor_def
  calculations_plant_heat_rate_def calculations_thermal_efficiency_def
  calculations_availability_forecast_def calculations_dependability_index_def
  calculations_avg_energy_sent_out_def calculations_gas_utilization_def
  calculations_load_factor_def hourly_energy_exported_def installed_capacity_def
  decimal_times_float_def decimal_div_def Let_def

section \<open>Unresolved report or plant\<close>

text \<open>
  C7. If the report or its power plant cannot be resolved,
  \<^verbatim>\<open>calculate_and_update_all_metrics\<close> returns without raising and without a change:
  the database after the call is the database before it, in the service as in
  \<^verbatim>\<open>calculations.py\<close>.
\<close>

theorem unresolved_is_noop:
  assumes "report_of d rid = None \<or> (\<exists>r. report_of d rid = Some r \<and> plant_of d r = None)"
  shows "service_calculate_and_update_all_metrics d rid = Inr d
       \<and> calculations_calculate_and_update_all_metrics d rid = Inr d"
  using assms service_unresolved calculations_unresolved by blast

theorem unresolved_is_noop_witness:
  "(report_of (sample_db new_report 100 [stat 1 30 10] [] []) 2 = None
     \<or> (\<exists>r. report_of (sample_db new_report 100 [stat 1 30 10] [] []) 2 = Some r
             \<and> plant_of (sample_db new_report 100 [stat 1 30 10] [] []) r = None))
   \<and> service_calculate_and_update_all_metrics (sample_db new_report 100 [stat 1 30 10] [] []) 2
       = Inr (sample_db new_report 100 [stat 1 30 10] [] [])
   \<and> calculations_calculate_and_update_all_metrics (sample_db new_report 100 [stat 1 30 10] [] []) 2
       = Inr (sample_db new_report 100 [stat 1 30 10] [] [])
   \<and> report_of (sample_db (new_report\<lparr>r_power_plant_id := 9\<rparr>) 100 [stat 1 30 10] [] []) 1
       = Some (new_report\<lparr>r_power_plant_id := 9\<rparr>)
   \<and> plant_of (sample_db (new_report\<lparr>r_power_plant_id := 9\<rparr>) 100 [stat 1 30 10] [] [])
         (new_report\<lparr>r_power_plant_id := 9\<rparr>) = None
   \<and> service_calculate_and_update_all_metrics
         (sample_db (new_report\<lparr>r_power_plant_id := 9\<rparr>) 100 [stat 1 30 10] [] []) 1
       = Inr (sample_db (new_report\<lparr>r_power_plant_id := 9\<rparr>) 100 [stat 1 30 10] [] [])
   \<and> calculations_calculate_and_update_all_metrics
         (sample_db (new_report\<lparr>r_power_plant_id := 9\<rparr>) 100 [stat 1 30 10] [] []) 1
       = Inr (sample_db (new_report\<lparr>r_power_plant_id := 9\<rparr>) 100 [stat 1 30 10] [] [])"
proof -
  have g1: "report_of (sample_db (new_report\<lparr>r_power_plant_id := 9\<rparr>) 100 [stat 1 30 10] [] []) 1
       = Some (new_report\<lparr>r_power_plant_id := 9\<rparr>)"
    by (simp add: sample_defs)
  have g2: "plant_of (sample_db (new_report\<lparr>r_power_plant_id := 9\<rparr>) 100 [stat 1 30 10] [] [])
         (new_report\<lparr>r_power_plant_id := 9\<rparr>) = None"
    by (simp add: sample_defs)
  from g1 g2 have g': "report_of (sample_db (new_report\<lparr>r_power_plant_id := 9\<rparr>) 100 [stat 1 30 10] [] []) 1 = None
     \<or> (\<exists>r. report_of (sample_db (new_report\<lparr>r_power_plant_id := 9\<rparr>) 100 [stat 1 30 10] [] []) 1 = Some r
             \<and> plant_of (sample_db (new_report\<lparr>r_power_plant_id := 9\<rparr>) 100 [stat 1 30 10] [] []) r = None)"
    by blast
  have h: "report_of (sample_db new_report 100 [stat 1 30 10] [] []) 2 = None"
    by (simp add: sample_db_def new_report_def)
  then have h': "report_of (sample_db new_report 100 [stat 1 30 10] [] []) 2 = None
     \<or> (\<exists>r. report_of (sample_db new_report 100 [stat 1 30 10] [] []) 2 = Some r
             \<and> plant_of (sample_db new_report 100 [stat 1 30 10] [] []) r = None)"
    by simp
  show ?thesis
    using h' unresolved_is_noop [OF h'] g1 g2 unresolved_is_noop [OF g'] by blast
qed

section \<open>Recomputation\<close>

text \<open>
  C6. The engine is idempotent: on any database and report id, a run of
  \<^verbatim>\<open>calculate_and_update_all_metrics\<close> of \<^verbatim>\<open>services/calculation_service.py\<close>
  returns a database on which a second run changes nothing, so the eleven derived fields
  and the two energy totals after two runs are those after one.
\<close>

theorem recomputation_idempotent:
  "\<exists>d'. service_calculate_and_update_all_metrics d rid = Inr d'
        \<and> service_calculate_and_update_all_metrics d' rid = Inr d'"
  using service_idem_db by blast

section \<open>The source of the energy totals\<close>

lemma sample_service_run:
  "service_calculate_and_update_all_metrics
     (sample_db new_report 100 [stat 1 30 10, stat 2 30 20] [hourly 1 1 50] []) 1
   = Inr (sample_db
            (new_report\<lparr>r_energy_generated := Some 60, r_total_energy_exported := Some 30,
                        r_energy_consumed := Some 30, r_avg_energy_sent_out := Some (5 / 4),
                        r_load_factor := Some (5 / 2)\<rparr>)
            100 [stat 1 30 10, stat 2 30 20] [hourly 1 1 50] [])"
  by (simp add: service_calculate_and_update_all_metrics_def service_metrics_def Let_def
        service_step_eqs service_energy_totals_def sample_defs truthy_def)

text \<open>
  C1, as the specification states it, fails: with one hourly record of 50 MWh and
  daily-stat rows that sum to 60 MWh, the report's \<^verbatim>\<open>energy_generated\<close> after the run
  of the service is 60, not the hourly sum. On the same database
  \<^verbatim>\<open>_update_energy_totals\<close> of \<^verbatim>\<open>calculations.py\<close> sets no total: it raises
  \<^verbatim>\<open>AttributeError\<close> at line 117, where it reads
  \<^verbatim>\<open>TurbineHourlyGeneration.energy_exported\<close>.
\<close>

theorem service_ignores_hourly_records:
  "hourly_of (sample_db new_report 100 [stat 1 30 10, stat 2 30 20] [hourly 1 1 50] []) 1 \<noteq> []
   \<and> hourly_generated (sample_db new_report 100 [stat 1 30 10, stat 2 30 20] [hourly 1 1 50] []) 1 = 50
   \<and> map_option r_energy_generated
       (report_after
          (service_calculate_and_update_all_metrics
             (sample_db new_report 100 [stat 1 30 10, stat 2 30 20] [hourly 1 1 50] []) 1) 1)
     = Some (Some 60)
   \<and> calculations_update_energy_totals
       (sample_db new_report 100 [stat 1 30 10, stat 2 30 20] [hourly 1 1 50] []) new_report
     = Inl AttributeError"
proof -
  let ?d = "sample_db new_report 100 [stat 1 30 10, stat 2 30 20] [hourly 1 1 50] []"
  have a: "hourly_of ?d 1 \<noteq> []" "hourly_generated ?d 1 = 50"
    by (simp_all add: hourly_generated_def sample_defs)
  have b: "map_option r_energy_generated
       (report_after (service_calculate_and_update_all_metrics ?d 1) 1) = Some (Some 60)"
    unfolding sample_service_run by (simp add: report_after_def sample_defs)
  have c: "calculations_update_energy_totals ?d new_report = Inl AttributeError"
    by (simp add: calculations_update_energy_totals_def hourly_energy_exported_def sample_defs)
  show ?thesis
    using a b c by simp
qed

text \<open>
  C1, amended. On a report whose plant resolves, the service sets
  \<^verbatim>\<open>energy_generated\<close> and \<^verbatim>\<open>total_energy_exported\<close> to the sums over the
  report's daily-stat rows, whether or not hourly records exist. When the report has no
  hourly record, \<^verbatim>\<open>_update_energy_totals\<close> of \<^verbatim>\<open>calculations.py\<close> sets the two
  fields of the report object to the same sums, and writes no row.
\<close>

theorem energy_totals_source:
  assumes "report_of d rid = Some r" and "plant_of d r = Some pp"
  shows "(\<exists>r'. report_after (service_calculate_and_update_all_metrics d rid) rid = Some r'
            \<and> r_energy_generated r' = Some (daily_generated d rid)
            \<and> r_total_energy_exported r' = Some (daily_exported d rid))
       \<and> (hourly_of d rid = [] \<longrightarrow>
            (\<exists>r'. calculations_update_energy_totals d r = Inr (d, r')
               \<and> r_energy_generated r' = Some (daily_generated d rid)
               \<and> r_total_energy_exported r' = Some (daily_exported d rid)))"
proof
  obtain r' where a: "report_after (service_calculate_and_update_all_metrics d rid) rid = Some r'"
    and m: "service_metrics pp (morning_of d r) (stats_of d rid) r = Inr r'"
    using service_totals [OF assms] by blast
  show "\<exists>r'. report_after (service_calculate_and_update_all_metrics d rid) rid = Some r'
            \<and> r_energy_generated r' = Some (daily_generated d rid)
            \<and> r_total_energy_exported r' = Some (daily_exported d rid)"
    using a service_metrics_fields(1,2) [OF m]
    by (simp add: daily_generated_def daily_exported_def)
next
  have i: "r_id r = rid"
    using find_Some_holds [OF assms(1)] .
  show "hourly_of d rid = [] \<longrightarrow>
            (\<exists>r'. calculations_update_energy_totals d r = Inr (d, r')
               \<and> r_energy_generated r' = Some (daily_generated d rid)
               \<and> r_total_energy_exported r' = Some (daily_exported d rid))"
    using energy_totals_daily [where d = d and r = r] i
    by (simp add: daily_generated_def daily_exported_def)
qed

theorem energy_totals_source_witness:
  "report_of (sample_db new_report 100 [stat 1 30 10, stat 2 30 20] [hourly 1 1 50] []) 1
     = Some new_report
   \<and> plant_of (sample_db new_report 100 [stat 1 30 10, stat 2 30 20] [hourly 1 1 50] []) new_report
     = Some (plant 100)
   \<and> (\<exists>r'. report_after (service_calculate_and_update_all_metrics
              (sample_db new_report 100 [stat 1 30 10, stat 2 30 20] [hourly 1 1 50] []) 1) 1 = Some r'
          \<and> r_energy_generated r' = Some 60 \<and> r_total_energy_exported r' = Some 30)
   \<and> report_of (sample_db new_report 100 [stat 1 30 10, stat 2 30 20] [] []) 1 = Some new_report
   \<and> plant_of (sample_db new_report 100 [stat 1 30 10, stat 2 30 20] [] []) new_report
     = Some (plant 100)
   \<and> hourly_of (sample_db new_report 100 [stat 1 30 10, stat 2 30 20] [] []) 1 = []
   \<and> (\<exists>r'. report_after (service_calculate_and_update_all_metrics
              (sample_db new_report 100 [stat 1 30 10, stat 2 30 20] [] []) 1) 1 = Some r'
          \<and> r_energy_generated r' = Some 60 \<and> r_total_energy_exported r' = Some 30)
   \<and> (\<exists>r'. calculations_update_energy_totals
              (sample_db new_report 100 [stat 1 30 10, stat 2 30 20] [] []) new_report
              = Inr (sample_db new_report 100 [stat 1 30 10, stat 2 30 20] [] [], r')
          \<and> r_energy_generated r' = Some 60 \<and> r_total_energy_exported r' = Some 30)"
proof -
  let ?d = "sample_db new_report 100 [stat 1 30 10, stat 2 30 20] [hourly 1 1 50] []"
  let ?n = "sample_db new_report 100 [stat 1 30 10, stat 2 30 20] [] []"
  have h1: "report_of ?d 1 = Some new_report"
    by (simp add: sample_defs)
  have h2: "plant_of ?d new_report = Some (plant 100)"
    by (simp add: sample_defs)
  have v: "daily_generated ?d 1 = 60" "daily_exported ?d 1 = 30"
    by (simp_all add: daily_generated_def daily_exported_def sample_defs)
  have n1: "report_of ?n 1 = Some new_report"
    by (simp add: sample_defs)
  have n2: "plant_of ?n new_report = Some (plant 100)"
    by (simp add: sample_defs)
  have n3: "hourly_of ?n 1 = []"
    by (simp add: sample_defs)
  have w: "daily_generated ?n 1 = 60" "daily_exported ?n 1 = 30"
    by (simp_all add: daily_generated_def daily_exported_def sample_defs)
  have p: "\<exists>r'. report_after (service_calculate_and_update_all_metrics ?d 1) 1 = Some r'
          \<and> r_energy_generated r' = Some 60 \<and> r_total_energy_exported r' = Some 30"
    using energy_totals_source [OF h1 h2] v by simp
  have q: "(\<exists>r'. report_after (service_calculate_and_update_all_metrics ?n 1) 1 = Some r'
          \<and> r_energy_generated r' = Some 60 \<and> r_total_energy_exported r' = Some 30)
       \<and> (\<exists>r'. calculations_update_energy_totals ?n new_report = Inr (?n, r')
          \<and> r_energy_generated r' = Some 60 \<and> r_total_energy_exported r' = Some 30)"
    using energy_totals_source [OF n1 n2] n3 w by simp
  show ?thesis
    using h1 h2 n1 n2 n3 p q by blast
qed

section \<open>Defaults of the derived fields\<close>

text \<open>
  C2, amended. After the service has run on a report whose plant resolves,
  \<^verbatim>\<open>energy_generated\<close>, \<^verbatim>\<open>total_energy_exported\<close>, \<^verbatim>\<open>energy_consumed\<close> and
  \<^verbatim>\<open>avg_energy_sent_out\<close> are set, and each of the other seven derived fields whose
  guard is unmet keeps the value it had, null included: the service assigns no default.
\<close>

theorem derived_fields_after_run:
  assumes "report_of d rid = Some r" and "plant_of d r = Some pp"
  shows "\<exists>r'. report_after (service_calculate_and_update_all_metrics d rid) rid = Some r'
            \<and> r_energy_generated r' \<noteq> None \<and> r_total_energy_exported r' \<noteq> None
            \<and> r_energy_consumed r' \<noteq> None \<and> r_avg_energy_sent_out r' \<noteq> None
            \<and> (\<not> truthy (r_availability_capacity r') \<or> \<not> 0 < p_total_capacity pp
                 \<longrightarrow> r_availability_factor r' = r_availability_factor r)
            \<and> (\<not> truthy (r_declaration_total r')
                 \<longrightarrow> r_availability_forecast r' = r_availability_forecast r)
            \<and> (\<not> truthy (r_availability_forecast r') \<or> \<not> 0 < the (r_availability_forecast r')
                 \<longrightarrow> r_dependability_index r' = r_dependability_index r)
            \<and> (\<not> 0 < r_gas_consumed r \<longrightarrow> r_gas_utilization r' = r_gas_utilization r)
            \<and> (\<not> truthy (r_gas_utilization r') \<or> \<not> 0 < the (r_gas_utilization r')
                 \<longrightarrow> r_plant_heat_rate r' = r_plant_heat_rate r)
            \<and> (\<not> truthy (r_plant_heat_rate r') \<or> \<not> 0 < the (r_plant_heat_rate r')
                 \<longrightarrow> r_thermal_efficiency r' = r_thermal_efficiency r)
            \<and> (p_total_capacity pp = 0 \<or> daily_generated d rid = 0
                 \<longrightarrow> r_load_factor r' = r_load_factor r)"
proof -
  obtain r' where a: "report_after (service_calculate_and_update_all_metrics d rid) rid = Some r'"
    and m: "service_metrics pp (morning_of d r) (stats_of d rid) r = Inr r'"
    using service_totals [OF assms] by blast
  note f = service_metrics_fields [OF m]
  have s: "r_energy_generated r' \<noteq> None" "r_total_energy_exported r' \<noteq> None"
    "r_energy_consumed r' \<noteq> None" "r_avg_energy_sent_out r' \<noteq> None"
    by (simp_all add: f(1-4))
  have k1: "\<not> truthy (r_availability_capacity r') \<or> \<not> 0 < p_total_capacity pp
                 \<longrightarrow> r_availability_factor r' = r_availability_factor r"
    using f(7) by simp
  have k2: "\<not> truthy (r_declaration_total r')
                 \<longrightarrow> r_availability_forecast r' = r_availability_forecast r"
    using f(8) by simp
  have k3: "\<not> truthy (r_availability_forecast r') \<or> \<not> 0 < the (r_availability_forecast r')
                 \<longrightarrow> r_dependability_index r' = r_dependability_index r"
    using f(9) by simp
  have k4: "\<not> 0 < r_gas_consumed r \<longrightarrow> r_gas_utilization r' = r_gas_utilization r"
    using f(10) by simp
  have k5: "\<not> truthy (r_gas_utilization r') \<or> \<not> 0 < the (r_gas_utilization r')
                 \<longrightarrow> r_plant_heat_rate r' = r_plant_heat_rate r"
    using f(11) by simp
  have k6: "\<not> truthy (r_plant_heat_rate r') \<or> \<not> 0 < the (r_plant_heat_rate r')
                 \<longrightarrow> r_thermal_efficiency r' = r_thermal_efficiency r"
    using f(12) by simp
  have k7: "p_total_capacity pp = 0 \<or> daily_generated d rid = 0
                 \<longrightarrow> r_load_factor r' = r_load_factor r"
    using f(13) by (simp add: daily_generated_def)
  show ?thesis
    by (intro exI [of _ r'] conjI) (fact a s k1 k2 k3 k4 k5 k6 k7)+
qed

text \<open>
  C2, as the specification states it, fails: on a report as \<^verbatim>\<open>create_daily_report\<close>
  stores it, with one daily-stat row, seven of the eleven derived fields are still null
  after the run of the service. On the same database the method of
  \<^verbatim>\<open>calculations.py\<close> raises \<^verbatim>\<open>AttributeError\<close> at line 86, where it reads
  \<^verbatim>\<open>power_plant.installed_capacity\<close>, before its commit: the defaults of its lines 41
  to 49 are not stored.
\<close>

theorem service_leaves_fields_null:
  "map_option derived_fields
     (report_after
        (service_calculate_and_update_all_metrics (sample_db new_report 100 [stat 1 30 10] [] []) 1) 1)
   = Some [None, None, None, Some 30, Some 10, Some 20, None, None, Some (5 / 12), None,
           Some (5 / 4)]
   \<and> calculations_calculate_and_update_all_metrics (sample_db new_report 100 [stat 1 30 10] [] []) 1
     = Inl AttributeError"
proof -
  have a: "map_option derived_fields
     (report_after
        (service_calculate_and_update_all_metrics (sample_db new_report 100 [stat 1 30 10] [] []) 1) 1)
   = Some [None, None, None, Some 30, Some 10, Some 20, None, None, Some (5 / 12), None,
           Some (5 / 4)]"
    by (simp add: run_defs sample_defs)
  have b: "calculations_calculate_and_update_all_metrics
             (sample_db new_report 100 [stat 1 30 10] [] []) 1 = Inl AttributeError"
    by (simp add: calculations_defs sample_defs)
  show ?thesis
    using a b by simp
qed

theorem derived_fields_after_run_witness:
  "report_of (sample_db new_report 0 [] [] []) 1 = Some new_report
   \<and> plant_of (sample_db new_report 0 [] [] []) new_report = Some (plant 0)
   \<and> (\<exists>r'. report_after
              (service_calculate_and_update_all_metrics (sample_db new_report 0 [] [] []) 1) 1
              = Some r'
          \<and> derived_fields r'
              = [None, None, None, Some 0, Some 0, Some 0, None, None, Some 0, None, None])"
proof -
  let ?d = "sample_db new_report 0 [] [] []"
  have h1: "report_of ?d 1 = Some new_report"
    by (simp add: sample_defs)
  have h2: "plant_of ?d new_report = Some (plant 0)"
    by (simp add: sample_defs)
  have s: "map_option derived_fields
       (report_after (service_calculate_and_update_all_metrics ?d 1) 1)
     = Some [None, None, None, Some 0, Some 0, Some 0, None, None, Some 0, None, None]"
    by (simp add: run_defs sample_defs)
  show ?thesis
    using derived_fields_after_run [OF h1 h2] h1 h2 s by auto
qed

section \<open>Heat rate and thermal efficiency\<close>

text \<open>
  C4, amended. For a report with \<^verbatim>\<open>gas_consumed\<close> = 10 whose plant resolves and whose
  daily-stat rows sum to 1000 MWh generated, the service stores
  \<^verbatim>\<open>energy_generated\<close> = 1000, \<^verbatim>\<open>gas_utilization\<close> = 1000 / 10 = 100,
  \<^verbatim>\<open>plant_heat_rate\<close> = 43.65 \<times> 1000 \<times> 24 / 100 = 10476 and
  \<^verbatim>\<open>thermal_efficiency\<close> = 3600 / 10476 \<times> 100, which is 34.4 to one decimal.
\<close>

theorem heat_rate_scenario:
  assumes "report_of d rid = Some r" and "plant_of d r = Some pp" and "r_gas_consumed r = 10"
    and "daily_generated d rid = 1000"
  shows "\<exists>r'. report_after (service_calculate_and_update_all_metrics d rid) rid = Some r'
            \<and> r_energy_generated r' = Some 1000
            \<and> r_gas_utilization r' = Some 100
            \<and> r_plant_heat_rate r' = Some 10476
            \<and> r_thermal_efficiency r' = Some (3600 / 10476 * 100)
            \<and> 3435 / 100 \<le> the (r_thermal_efficiency r')
            \<and> the (r_thermal_efficiency r') < 3445 / 100"
proof -
  obtain r' where a: "report_after (service_calculate_and_update_all_metrics d rid) rid = Some r'"
    and m: "service_metrics pp (morning_of d r) (stats_of d rid) r = Inr r'"
    using service_totals [OF assms(1,2)] by blast
  note f = service_metrics_fields [OF m]
  have s: "sum_list (map s_energy_generated (stats_of d rid)) = 1000"
    using assms(4) by (simp add: daily_generated_def)
  have gen: "r_energy_generated r' = Some 1000"
    by (simp add: f(1) s)
  have gu: "r_gas_utilization r' = Some 100"
    by (simp add: f(10) s assms(3))
  have hr: "r_plant_heat_rate r' = Some 10476"
    using f(11) by (simp add: gu truthy_def)
  have te: "r_thermal_efficiency r' = Some (3600 / 10476 * 100)"
    using f(12) by (simp add: hr truthy_def)
  have lo: "3435 / 100 \<le> the (r_thermal_efficiency r')"
    by (simp add: te)
  have hi: "the (r_thermal_efficiency r') < 3445 / 100"
    by (simp add: te)
  show ?thesis
    by (intro exI [of _ r'] conjI) (fact a gen gu hr te lo hi)+
qed

text \<open>
  C4, as the specification states it, fails: with gas 10 and one daily-stat row of
  1000 MWh the heat rate that the service stores is 10476, not 353.14, and the thermal
  efficiency is below 35 per cent. On the same database the method of
  \<^verbatim>\<open>calculations.py\<close> stores nothing: line 62 multiplies the \<^verbatim>\<open>Decimal\<close>
  \<^verbatim>\<open>gas_consumed\<close> by a float and raises \<^verbatim>\<open>TypeError\<close>.
\<close>

theorem service_heat_rate_differs:
  "map_option r_plant_heat_rate
     (report_after
        (service_calculate_and_update_all_metrics
           (sample_db (new_report\<lparr>r_gas_consumed := 10\<rparr>) 100 [stat 1 1000 1000] [] []) 1) 1)
     = Some (Some 10476)
   \<and> map_option r_thermal_efficiency
     (report_after
        (service_calculate_and_update_all_metrics
           (sample_db (new_report\<lparr>r_gas_consumed := 10\<rparr>) 100 [stat 1 1000 1000] [] []) 1) 1)
     = Some (Some (10000 / 291))
   \<and> (10476 :: rat) \<noteq> 35314 / 100
   \<and> (10000 / 291 :: rat) < 35
   \<and> calculations_calculate_and_update_all_metrics
        (sample_db (new_report\<lparr>r_gas_consumed := 10\<rparr>) 100 [stat 1 1000 1000] [] []) 1
     = Inl TypeError"
proof -
  let ?d = "sample_db (new_report\<lparr>r_gas_consumed := 10\<rparr>) 100 [stat 1 1000 1000] [] []"
  have a: "map_option r_plant_heat_rate
      (report_after (service_calculate_and_update_all_metrics ?d 1) 1) = Some (Some 10476)
    \<and> map_option r_thermal_efficiency
      (report_after (service_calculate_and_update_all_metrics ?d 1) 1) = Some (Some (10000 / 291))"
    by (simp add: run_defs sample_defs)
  have b: "calculations_calculate_and_update_all_metrics ?d 1 = Inl TypeError"
    by (simp add: calculations_defs sample_defs)
  show ?thesis
    using a b by simp
qed

theorem heat_rate_scenario_witness:
  "report_of (sample_db (new_report\<lparr>r_gas_consumed := 10\<rparr>) 100 [stat 1 1000 1000] [] []) 1
     = Some (new_report\<lparr>r_gas_consumed := 10\<rparr>)
   \<and> plant_of (sample_db (new_report\<lparr>r_gas_consumed := 10\<rparr>) 100 [stat 1 1000 1000] [] [])
        (new_report\<lparr>r_gas_consumed := 10\<rparr>) = Some (plant 100)
   \<and> r_gas_consumed (new_report\<lparr>r_gas_consumed := 10\<rparr>) = 10
   \<and> daily_generated (sample_db (new_report\<lparr>r_gas_consumed := 10\<rparr>) 100 [stat 1 1000 1000] [] []) 1
       = 1000
   \<and> (\<exists>r'. report_after
              (service_calculate_and_update_all_metrics
                 (sample_db (new_report\<lparr>r_gas_consumed := 10\<rparr>) 100 [stat 1 1000 1000] [] []) 1) 1
              = Some r'
          \<and> r_gas_utilization r' = Some 100
          \<and> r_plant_heat_rate r' = Some 10476
          \<and> r_thermal_efficiency r' = Some (3600 / 10476 * 100))"
proof -
  let ?r = "new_report\<lparr>r_gas_consumed := 10\<rparr>"
  let ?d = "sample_db ?r 100 [stat 1 1000 1000] [] []"
  have h1: "report_of ?d 1 = Some ?r"
    by (simp add: sample_defs)
  have h2: "plant_of ?d ?r = Some (plant 100)"
    by (simp add: sample_defs)
  have h3: "r_gas_consumed ?r = 10"
    by simp
  have h4: "daily_generated ?d 1 = 1000"
    by (simp add: daily_generated_def sample_defs)
  from heat_rate_scenario [OF h1 h2 h3 h4]
  have "\<exists>r'. report_after (service_calculate_and_update_all_metrics ?d 1) 1 = Some r'
          \<and> r_gas_utilization r' = Some 100
          \<and> r_plant_heat_rate r' = Some 10476
          \<and> r_thermal_efficiency r' = Some (3600 / 10476 * 100)"
    by blast
  with h1 h2 h3 h4 show ?thesis by blast
qed

section \<open>Load factor\<close>

text \<open>
  C5, amended. For every report whose plant resolves, the service sets
  \<^verbatim>\<open>load_factor\<close> to ((energy_generated / 24) / plant capacity) \<times> 100 when the
  capacity and the energy generated are both non-zero, and otherwise leaves it as it was.
\<close>

theorem load_factor_formula:
  assumes "report_of d rid = Some r" and "plant_of d r = Some pp"
  shows "\<exists>r' g. report_after (service_calculate_and_update_all_metrics d rid) rid = Some r'
            \<and> r_energy_generated r' = Some g
            \<and> r_load_factor r' =
                (if p_total_capacity pp \<noteq> 0 \<and> g \<noteq> 0
                 then Some (g / 24 / p_total_capacity pp * 100) else r_load_factor r)"
proof -
  obtain r' where a: "report_after (service_calculate_and_update_all_metrics d rid) rid = Some r'"
    and m: "service_metrics pp (morning_of d r) (stats_of d rid) r = Inr r'"
    using service_totals [OF assms] by blast
  note f = service_metrics_fields [OF m]
  show ?thesis
    by (intro exI [of _ r'] exI [of _ "sum_list (map s_energy_generated (stats_of d rid))"] conjI)
       (fact a f(1) f(13))+
qed

text \<open>
  C5, as the specification states it, fails: with capacity 100, 2400 MWh generated and
  1200 MWh exported the load factor that the service stores is 100, where the exported
  energy gives 50; and with capacity 0 the load factor of a new report stays null. On the
  first database the method of \<^verbatim>\<open>calculations.py\<close> stores nothing: line 86 reads
  \<^verbatim>\<open>power_plant.installed_capacity\<close> and raises \<^verbatim>\<open>AttributeError\<close>.
\<close>

theorem service_load_factor_differs:
  "map_option r_load_factor
     (report_after
        (service_calculate_and_update_all_metrics
           (sample_db new_report 100 [stat 1 2400 1200] [] []) 1) 1)
     = Some (Some 100)
   \<and> map_option r_total_energy_exported
     (report_after
        (service_calculate_and_update_all_metrics
           (sample_db new_report 100 [stat 1 2400 1200] [] []) 1) 1)
     = Some (Some 1200)
   \<and> p_total_capacity (plant 100) = 100
   \<and> (1200 / (100 * 24)) * 100 = (50 :: rat)
   \<and> map_option r_load_factor
     (report_after
        (service_calculate_and_update_all_metrics
           (sample_db new_report 0 [stat 1 2400 1200] [] []) 1) 1)
     = Some None
   \<and> calculations_calculate_and_update_all_metrics
        (sample_db new_report 100 [stat 1 2400 1200] [] []) 1
     = Inl AttributeError"
proof -
  have a: "map_option r_load_factor
     (report_after
        (service_calculate_and_update_all_metrics
           (sample_db new_report 100 [stat 1 2400 1200] [] []) 1) 1)
     = Some (Some 100)
   \<and> map_option r_total_energy_exported
     (report_after
        (service_calculate_and_update_all_metrics
           (sample_db new_report 100 [stat 1 2400 1200] [] []) 1) 1)
     = Some (Some 1200)
   \<and> p_total_capacity (plant 100) = 100
   \<and> (1200 / (100 * 24)) * 100 = (50 :: rat)
   \<and> map_option r_load_factor
     (report_after
        (service_calculate_and_update_all_metrics
           (sample_db new_report 0 [stat 1 2400 1200] [] []) 1) 1)
     = Some None"
    by (simp add: run_defs sample_defs)
  have b: "calculations_calculate_and_update_all_metrics
        (sample_db new_report 100 [stat 1 2400 1200] [] []) 1 = Inl AttributeError"
    by (simp add: calculations_defs sample_defs)
  show ?thesis
    using a b by simp
qed

theorem load_factor_formula_witness:
  "report_of (sample_db new_report 100 [stat 1 2400 1200] [] []) 1 = Some new_report
   \<and> plant_of (sample_db new_report 100 [stat 1 2400 1200] [] []) new_report = Some (plant 100)
   \<and> (\<exists>r'. report_after
              (service_calculate_and_update_all_metrics
                 (sample_db new_report 100 [stat 1 2400 1200] [] []) 1) 1 = Some r'
          \<and> r_energy_generated r' = Some 2400 \<and> r_load_factor r' = Some 100)"
proof -
  let ?d = "sample_db new_report 100 [stat 1 2400 1200] [] []"
  have h1: "report_of ?d 1 = Some new_report"
    by (simp add: sample_defs)
  have h2: "plant_of ?d new_report = Some (plant 100)"
    by (simp add: sample_defs)
  have s: "map_option (\<lambda>r. (r_energy_generated r, r_load_factor r))
       (report_after (service_calculate_and_update_all_metrics ?d 1) 1)
     = Some (Some 2400, Some 100)"
    by (simp add: run_defs sample_defs)
  show ?thesis
    using load_factor_formula [OF h1 h2] h1 h2 s by auto
qed

section \<open>Division by zero\<close>

text \<open>
  C8, amended. For every input, the service performs no division by zero: each run
  returns normally. Each block that divides by plant capacity, availability forecast, gas
  consumed, gas utilization or plant heat rate is the assignment of the quotient under its
  guard and the identity elsewhere, and the guard makes the divisor strictly positive,
  except in the load factor, whose guard makes the plant capacity non-zero.
\<close>

theorem no_division_by_zero:
  "(\<exists>d'. service_calculate_and_update_all_metrics d rid = Inr d')
   \<and> service_availability_factor pp r =
       Inr (if truthy (r_availability_capacity r) \<and> 0 < p_total_capacity pp
            then r\<lparr>r_availability_factor :=
                     Some (the (r_availability_capacity r) / p_total_capacity pp * 100)\<rparr>
            else r)
   \<and> service_dependability_index g r =
       Inr (if truthy (r_availability_forecast r) \<and> 0 < the (r_availability_forecast r)
            then r\<lparr>r_dependability_index := Some (g / the (r_availability_forecast r) * 100)\<rparr>
            else r)
   \<and> service_gas_utilization g r =
       Inr (if 0 < r_gas_consumed r then r\<lparr>r_gas_utilization := Some (g / r_gas_consumed r)\<rparr>
            else r)
   \<and> service_plant_heat_rate r =
       Inr (if truthy (r_gas_utilization r) \<and> 0 < the (r_gas_utilization r)
            then r\<lparr>r_plant_heat_rate := Some (1047600 / the (r_gas_utilization r))\<rparr>
            else r)
   \<and> service_thermal_efficiency r =
       Inr (if truthy (r_plant_heat_rate r) \<and> 0 < the (r_plant_heat_rate r)
            then r\<lparr>r_thermal_efficiency := Some (3600 / the (r_plant_heat_rate r) * 100)\<rparr>
            else r)
   \<and> service_load_factor pp g r =
       Inr (if p_total_capacity pp \<noteq> 0 \<and> g \<noteq> 0
            then r\<lparr>r_load_factor := Some (g / 24 / p_total_capacity pp * 100)\<rparr>
            else r)"
proof (intro conjI)
  show "\<exists>d'. service_calculate_and_update_all_metrics d rid = Inr d'"
    using service_idem_db by blast
  show "service_availability_factor pp r =
       Inr (if truthy (r_availability_capacity r) \<and> 0 < p_total_capacity pp
            then r\<lparr>r_availability_factor :=
                     Some (the (r_availability_capacity r) / p_total_capacity pp * 100)\<rparr>
            else r)"
    by (simp add: service_availability_factor_eq)
  show "service_dependability_index g r =
       Inr (if truthy (r_availability_forecast r) \<and> 0 < the (r_availability_forecast r)
            then r\<lparr>r_dependability_index := Some (g / the (r_availability_forecast r) * 100)\<rparr>
            else r)"
    by (simp add: service_dependability_index_eq)
  show "service_gas_utilization g r =
       Inr (if 0 < r_gas_consumed r then r\<lparr>r_gas_utilization := Some (g / r_gas_consumed r)\<rparr>
            else r)"
    by (simp add: service_gas_utilization_eq)
  show "service_plant_heat_rate r =
       Inr (if truthy (r_gas_utilization r) \<and> 0 < the (r_gas_utilization r)
            then r\<lparr>r_plant_heat_rate := Some (1047600 / the (r_gas_utilization r))\<rparr>
            else r)"
    by (simp add: service_plant_heat_rate_eq)
  show "service_thermal_efficiency r =
       Inr (if truthy (r_plant_heat_rate r) \<and> 0 < the (r_plant_heat_rate r)
            then r\<lparr>r_thermal_efficiency := Some (3600 / the (r_plant_heat_rate r) * 100)\<rparr>
            else r)"
    by (simp add: service_thermal_efficiency_eq)
  show "service_load_factor pp g r =
       Inr (if p_total_capacity pp \<noteq> 0 \<and> g \<noteq> 0
            then r\<lparr>r_load_factor := Some (g / 24 / p_total_capacity pp * 100)\<rparr>
            else r)"
    by (simp add: service_load_factor_eq)
qed

text \<open>
  C8, as the specification states it, fails on the load factor: a plant capacity of -100
  is not strictly positive, and the block divides by it.
\<close>

theorem service_divides_by_negative_capacity:
  "p_total_capacity (plant (- 100)) = - 100
   \<and> \<not> 0 < p_total_capacity (plant (- 100))
   \<and> r_load_factor new_report = None
   \<and> service_load_factor (plant (- 100)) 2400 new_report
       = Inr (new_report\<lparr>r_load_factor := Some (2400 / 24 / (- 100) * 100)\<rparr>)
   \<and> map_option r_load_factor
       (report_after
          (service_calculate_and_update_all_metrics
             (sample_db new_report (- 100) [stat 1 2400 1200] [] []) 1) 1)
     = Some (Some (- 100))"
  by (simp add: run_defs sample_defs service_load_factor_def decimal_div_def)

section \<open>Turbines without hourly records\<close>




section \<open>The morning reading\<close>

text \<open>
  C9. The service reads the morning reading of the report's plant and date: when the
  report's \<^verbatim>\<open>declaration_total\<close> (respectively \<^verbatim>\<open>availability_capacity\<close>) is null or
  zero, the morning reading's value is stored on the report, and
  \<^verbatim>\<open>availability_factor\<close>, \<^verbatim>\<open>availability_forecast\<close> and
  \<^verbatim>\<open>dependability_index\<close> are computed from the stored values. So two databases with
  the same reports, plants, daily-stat and hourly rows can give different derived fields.
\<close>

theorem morning_reading_is_an_input:
  "(\<forall>d rid r pp m.
      report_of d rid = Some r \<and> plant_of d r = Some pp \<and> morning_of d r = Some m
      \<longrightarrow> (\<exists>r'. report_after (service_calculate_and_update_all_metrics d rid) rid = Some r'
             \<and> r_declaration_total r' =
                 (if truthy (r_declaration_total r) then r_declaration_total r
                  else Some (m_declaration_total m))
             \<and> r_availability_capacity r' =
                 (if truthy (r_availability_capacity r) then r_availability_capacity r
                  else Some (m_availability_capacity m))
             \<and> r_availability_factor r' =
                 (if truthy (r_availability_capacity r') \<and> 0 < p_total_capacity pp
                  then Some (the (r_availability_capacity r') / p_total_capacity pp * 100)
                  else r_availability_factor r)
             \<and> r_availability_forecast r' =
                 (if truthy (r_declaration_total r') then Some (the (r_declaration_total r') * 24)
                  else r_availability_forecast r)
             \<and> r_dependability_index r' =
                 (if truthy (r_availability_forecast r') \<and> 0 < the (r_availability_forecast r')
                  then Some (daily_generated d rid / the (r_availability_forecast r') * 100)
                  else r_dependability_index r)))
   \<and> (\<exists>d1 d2 rid.
         daily_reports d1 = daily_reports d2 \<and> power_plants d1 = power_plants d2
         \<and> turbine_daily_stats d1 = turbine_daily_stats d2
         \<and> turbine_hourly_generations d1 = turbine_hourly_generations d2
         \<and> map_option derived_fields
             (report_after (service_calculate_and_update_all_metrics d1 rid) rid)
           \<noteq> map_option derived_fields
               (report_after (service_calculate_and_update_all_metrics d2 rid) rid))"
proof (intro conjI allI impI)
  fix d rid r pp m
  assume h: "report_of d rid = Some r \<and> plant_of d r = Some pp \<and> morning_of d r = Some m"
  then have r: "report_of d rid = Some r" and pp: "plant_of d r = Some pp"
    and mo: "morning_of d r = Some m"
    by simp_all
  obtain r' where a: "report_after (service_calculate_and_update_all_metrics d rid) rid = Some r'"
    and m: "service_metrics pp (morning_of d r) (stats_of d rid) r = Inr r'"
    using service_totals [OF r pp] by blast
  note f = service_metrics_fields [OF m]
  have d1: "r_declaration_total r' =
      (if truthy (r_declaration_total r) then r_declaration_total r else Some (m_declaration_total m))"
    using f(5) by (simp add: mo)
  have d2: "r_availability_capacity r' =
      (if truthy (r_availability_capacity r) then r_availability_capacity r
       else Some (m_availability_capacity m))"
    using f(6) by (simp add: mo)
  have d3: "r_dependability_index r' =
      (if truthy (r_availability_forecast r') \<and> 0 < the (r_availability_forecast r')
       then Some (daily_generated d rid / the (r_availability_forecast r') * 100)
       else r_dependability_index r)"
    using f(9) by (simp add: daily_generated_def)
  show "\<exists>r'. report_after (service_calculate_and_update_all_metrics d rid) rid = Some r'
             \<and> r_declaration_total r' =
                 (if truthy (r_declaration_total r) then r_declaration_total r
                  else Some (m_declaration_total m))
             \<and> r_availability_capacity r' =
                 (if truthy (r_availability_capacity r) then r_availability_capacity r
                  else Some (m_availability_capacity m))
             \<and> r_availability_factor r' =
                 (if truthy (r_availability_capacity r') \<and> 0 < p_total_capacity pp
                  then Some (the (r_availability_capacity r') / p_total_capacity pp * 100)
                  else r_availability_factor r)
             \<and> r_availability_forecast r' =
                 (if truthy (r_declaration_total r') then Some (the (r_declaration_total r') * 24)
                  else r_availability_forecast r)
             \<and> r_dependability_index r' =
                 (if truthy (r_availability_forecast r') \<and> 0 < the (r_availability_forecast r')
                  then Some (daily_generated d rid / the (r_availability_forecast r') * 100)
                  else r_dependability_index r)"
    by (intro exI [of _ r'] conjI) (fact a d1 d2 f(7) f(8) d3)+
next
  have "map_option derived_fields
         (report_after (service_calculate_and_update_all_metrics
            (sample_db new_report 100 [stat 1 30 10] [] []) 1) 1)
      \<noteq> map_option derived_fields
         (report_after (service_calculate_and_update_all_metrics
            (sample_db new_report 100 [stat 1 30 10] [] [morning 70 80]) 1) 1)"
    by (simp add: run_defs sample_defs)
  moreover have "daily_reports (sample_db new_report 100 [stat 1 30 10] [] [])
        = daily_reports (sample_db new_report 100 [stat 1 30 10] [] [morning 70 80])
      \<and> power_plants (sample_db new_report 100 [stat 1 30 10] [] [])
        = power_plants (sample_db new_report 100 [stat 1 30 10] [] [morning 70 80])
      \<and> turbine_daily_stats (sample_db new_report 100 [stat 1 30 10] [] [])
        = turbine_daily_stats (sample_db new_report 100 [stat 1 30 10] [] [morning 70 80])
      \<and> turbine_hourly_generations (sample_db new_report 100 [stat 1 30 10] [] [])
        = turbine_hourly_generations (sample_db new_report 100 [stat 1 30 10] [] [morning 70 80])"
    by (simp add: sample_db_def)
  ultimately show "\<exists>d1 d2 rid.
         daily_reports d1 = daily_reports d2 \<and> power_plants d1 = power_plants d2
         \<and> turbine_daily_stats d1 = turbine_daily_stats d2
         \<and> turbine_hourly_generations d1 = turbine_hourly_generations d2
         \<and> map_option derived_fields
             (report_after (service_calculate_and_update_all_metrics d1 rid) rid)
           \<noteq> map_option derived_fields
               (report_after (service_calculate_and_update_all_metrics d2 rid) rid)"
    by blast
qed

theorem morning_reading_is_an_input_witness:
  "report_of (sample_db new_report 100 [stat 1 30 10] [] [morning 70 80]) 1 = Some new_report
   \<and> plant_of (sample_db new_report 100 [stat 1 30 10] [] [morning 70 80]) new_report
       = Some (plant 100)
   \<and> morning_of (sample_db new_report 100 [stat 1 30 10] [] [morning 70 80]) new_report
       = Some (morning 70 80)
   \<and> r_declaration_total new_report = None \<and> r_availability_capacity new_report = None
   \<and> (\<exists>r'. report_after
              (service_calculate_and_update_all_metrics
                 (sample_db new_report 100 [stat 1 30 10] [] [morning 70 80]) 1) 1 = Some r'
          \<and> r_declaration_total r' = Some 70 \<and> r_availability_capacity r' = Some 80
          \<and> r_availability_factor r' = Some 80 \<and> r_availability_forecast r' = Some 1680
          \<and> r_dependability_index r' = Some (30 / 1680 * 100))"
proof -
  let ?d = "sample_db new_report 100 [stat 1 30 10] [] [morning 70 80]"
  have h1: "report_of ?d 1 = Some new_report"
    by (simp add: sample_defs)
  have h2: "plant_of ?d new_report = Some (plant 100)"
    by (simp add: sample_defs)
  have h3: "morning_of ?d new_report = Some (morning 70 80)"
    by (simp add: sample_defs)
  have v: "r_declaration_total new_report = None" "r_availability_capacity new_report = None"
    "r_availability_factor new_report = None" "r_availability_forecast new_report = None"
    "r_dependability_index new_report = None" "m_declaration_total (morning 70 80) = 70"
    "m_availability_capacity (morning 70 80) = 80" "p_total_capacity (plant 100) = 100"
    "daily_generated ?d 1 = 30"
    by (simp_all add: sample_defs daily_generated_def)
  from morning_reading_is_an_input
  have "report_of ?d 1 = Some new_report \<and> plant_of ?d new_report = Some (plant 100)
        \<and> morning_of ?d new_report = Some (morning 70 80)
      \<longrightarrow> (\<exists>r'. report_after (service_calculate_and_update_all_metrics ?d 1) 1 = Some r'
             \<and> r_declaration_total r' =
                 (if truthy (r_declaration_total new_report) then r_declaration_total new_report
                  else Some (m_declaration_total (morning 70 80)))
             \<and> r_availability_capacity r' =
                 (if truthy (r_availability_capacity new_report) then r_availability_capacity new_report
                  else Some (m_availability_capacity (morning 70 80)))
             \<and> r_availability_factor r' =
                 (if truthy (r_availability_capacity r') \<and> 0 < p_total_capacity (plant 100)
                  then Some (the (r_availability_capacity r') / p_total_capacity (plant 100) * 100)
                  else r_availability_factor new_report)
             \<and> r_availability_forecast r' =
                 (if truthy (r_declaration_total r') then Some (the (r_declaration_total r') * 24)
                  else r_availability_forecast new_report)
             \<and> r_dependability_index r' =
                 (if truthy (r_availability_forecast r') \<and> 0 < the (r_availability_forecast r')
                  then Some (daily_generated ?d 1 / the (r_availability_forecast r') * 100)
                  else r_dependability_index new_report))"
    by blast
  with h1 h2 h3 obtain r' where
    a: "report_after (service_calculate_and_update_all_metrics ?d 1) 1 = Some r'"
    and b: "r_declaration_total r' = Some 70" "r_availability_capacity r' = Some 80"
    and c: "r_availability_factor r' =
                 (if truthy (r_availability_capacity r') \<and> 0 < (100 :: rat)
                  then Some (the (r_availability_capacity r') / 100 * 100) else None)"
      "r_availability_forecast r' =
                 (if truthy (r_declaration_total r') then Some (the (r_declaration_total r') * 24)
                  else None)"
      "r_dependability_index r' =
                 (if truthy (r_availability_forecast r') \<and> 0 < the (r_availability_forecast r')
                  then Some (30 / the (r_availability_forecast r') * 100) else None)"
    unfolding v by (auto simp: truthy_def)
  have fc: "r_availability_forecast r' = Some 1680"
    using c(2) by (simp add: b truthy_def)
  have "r_availability_factor r' = Some 80"
    using c(1) by (simp add: b truthy_def)
  moreover have "r_dependability_index r' = Some (30 / 1680 * 100)"
    using c(3) by (simp add: fc truthy_def)
  ultimately show ?thesis
    using h1 h2 h3 v(1,2) a b fc by blast
qed

section \<open>The update paths\<close>

lemma map_update_first_found:
  "find P xs = Some x \<Longrightarrow> k y = k x \<Longrightarrow> map k (update_first P (\<lambda>_. y) xs) = map k xs"
  by (induction xs) (auto split: if_splits)

lemma turbine_stats_loop_frame:
  assumes "turbine_stats_loop rid rep items d = (d1, x)" and "r_id rep = rid"
    and "report_of d rid \<noteq> None"
  shows "power_plants d1 = power_plants d \<and> report_of d1 rid \<noteq> None"
  using assms
proof (induction items arbitrary: d)
  case Nil
  then show ?case by simp
next
  case (Cons item items)
  show ?case
  proof (cases "find (\<lambda>t. t_id t = tu_turbine_id item \<and> t_power_plant_id t = r_power_plant_id rep)
                  (turbines d)")
    case None
    with Cons.prems show ?thesis by simp
  next
    case (Some t)
    let ?d = "d\<lparr>turbine_daily_stats :=
                 (case find (\<lambda>s. s_daily_report_id s = rid
                                  \<and> s_turbine_id s = tu_turbine_id item) (turbine_daily_stats d) of
                    Some existing_stat \<Rightarrow>
                      update_first (\<lambda>s. s_daily_report_id s = rid
                                         \<and> s_turbine_id s = tu_turbine_id item)
                        (apply_stats_update item) (turbine_daily_stats d)
                  | None \<Rightarrow>
                      turbine_daily_stats d
                        @ [new_stats (new_uuid (map s_id (turbine_daily_stats d))) rid item]),
               daily_reports :=
                 update_first (\<lambda>r. r_id r = rid) (\<lambda>_. rep) (daily_reports d)\<rparr>"
    have run: "turbine_stats_loop rid rep items ?d = (d1, x)"
      using Cons.prems(1) Some by simp
    obtain r where "report_of d rid = Some r"
      using Cons.prems(3) by auto
    then have "report_of ?d rid = Some rep"
      using find_update_first_const [of "\<lambda>r. r_id r = rid" "daily_reports d" r rep] Cons.prems(2)
      by simp
    then have "report_of ?d rid \<noteq> None" by simp
    from Cons.IH [OF run Cons.prems(2) this] show ?thesis by simp
  qed
qed

lemma update_daily_report_success:
  assumes "update_daily_report d rid report_in current_user now = (d', Inr res)"
    and "report_of d rid = Some r"
  shows "\<exists>rep d1 rep3.
           r_id rep = rid \<and> r_power_plant_id rep = r_power_plant_id r
           \<and> r_id rep3 = rid \<and> r_power_plant_id rep3 = r_power_plant_id r
           \<and> turbine_stats_loop rid rep
               (case du_turbine_stats report_in of None \<Rightarrow> [] | Some l \<Rightarrow> l) d = (d1, Inr ())
           \<and> service_calculate_and_update_all_metrics
               (d1\<lparr>daily_reports :=
                     update_first (\<lambda>r. r_id r = rid) (\<lambda>_. rep3) (daily_reports d1)\<rparr>) rid = Inr d'
           \<and> res = report_of d' rid"
proof -
  have rid: "r_id r = rid"
    using find_Some_holds [OF assms(2)] .
  define late where "late =
    (if (case r_submission_deadline r of None \<Rightarrow> False | Some deadline \<Rightarrow> now > deadline)
          \<and> \<not> r_is_late_submission r
     then r\<lparr>r_is_late_submission := True\<rparr> else r)"
  define rep where "rep = apply_report_update report_in late"
  define rep3 where "rep3 = rep\<lparr>r_last_modified_by_id := Some (u_id current_user),
                                r_updated_at := Some now\<rparr>"
  have k: "r_id rep = rid" "r_power_plant_id rep = r_power_plant_id r"
    "r_id rep3 = rid" "r_power_plant_id rep3 = r_power_plant_id r"
    by (simp_all add: rep_def rep3_def late_def apply_report_update_def rid)
  obtain d1 x where loop: "turbine_stats_loop rid rep
      (case du_turbine_stats report_in of None \<Rightarrow> [] | Some l \<Rightarrow> l) d = (d1, x)"
    by (cases "turbine_stats_loop rid rep
      (case du_turbine_stats report_in of None \<Rightarrow> [] | Some l \<Rightarrow> l) d") auto
  have "x = Inr () \<and> service_calculate_and_update_all_metrics
               (d1\<lparr>daily_reports :=
                     update_first (\<lambda>r. r_id r = rid) (\<lambda>_. rep3) (daily_reports d1)\<rparr>) rid = Inr d'
           \<and> res = report_of d' rid"
    using assms(1) loop
    unfolding update_daily_report_def Let_def assms(2) option.case
      late_def [symmetric] rep_def [symmetric] rep3_def [symmetric]
    by (auto split: if_splits sum.splits)
  with k loop show ?thesis by blast
qed

lemma update_hourly_readings_frame:
  assumes "update_hourly_readings d rid readings current_user now = (dh, resh)"
  shows "turbine_daily_stats dh = turbine_daily_stats d" and "power_plants dh = power_plants d"
    and "morning_readings dh = morning_readings d" and "turbines dh = turbines d"
  using assms
  by (auto simp: update_hourly_readings_def Let_def split: option.splits if_splits sum.splits)

lemma update_hourly_readings_reports:
  assumes "update_hourly_readings d rid readings current_user now = (dh, resh)"
    and "\<And>r v. k (r\<lparr>r_is_late_submission := v\<rparr>) = k r"
    and "\<And>r v. k (r\<lparr>r_last_modified_by_id := v\<rparr>) = k r"
    and "\<And>r v. k (r\<lparr>r_updated_at := v\<rparr>) = k r"
  shows "map k (daily_reports dh) = map k (daily_reports d)"
proof (cases "report_of d rid")
  case None
  with assms(1) show ?thesis by (simp add: update_hourly_readings_def)
next
  case (Some r)
  have "map k (update_first (\<lambda>r. r_id r = rid) (\<lambda>_. y) (daily_reports d))
      = map k (daily_reports d)" if "k y = k r" for y
    using that by (intro map_update_first_found [OF Some])
  then show ?thesis
    using assms(1) Some
    by (auto simp: update_hourly_readings_def Let_def assms(2,3,4) split: if_splits sum.splits)
qed

lemma sample_update_daily_report:
  "update_daily_report (sample_db new_report 100 [stat 1 30 10] [] []) 1 no_update editor 0
     = (sample_db (new_report\<lparr>r_energy_generated := Some 30, r_total_energy_exported := Some 10,
                   r_energy_consumed := Some 20, r_avg_energy_sent_out := Some (5 / 12),
                   r_load_factor := Some (5 / 4), r_updated_at := Some 0,
                   r_last_modified_by_id := Some 7\<rparr>) 100 [stat 1 30 10] [] [],
        Inr (Some (new_report\<lparr>r_energy_generated := Some 30, r_total_energy_exported := Some 10,
                   r_energy_consumed := Some 20, r_avg_energy_sent_out := Some (5 / 12),
                   r_load_factor := Some (5 / 4), r_updated_at := Some 0,
                   r_last_modified_by_id := Some 7\<rparr>)))"
  by (simp add: update_daily_report_def apply_report_update_def run_defs sample_defs)

lemma sample_update_hourly_readings:
  "update_hourly_readings
       (sample_db (new_report\<lparr>r_energy_generated := Some 30, r_total_energy_exported := Some 10,
                   r_energy_consumed := Some 20, r_avg_energy_sent_out := Some (5 / 12),
                   r_load_factor := Some (5 / 4), r_updated_at := Some 0,
                   r_last_modified_by_id := Some 7\<rparr>) 100 [stat 1 30 10] [] [])
       1 [reading 1 1 50] editor 0
     = (sample_db (new_report\<lparr>r_energy_generated := Some 30, r_total_energy_exported := Some 10,
                   r_energy_consumed := Some 20, r_avg_energy_sent_out := Some (5 / 12),
                   r_load_factor := Some (5 / 4), r_updated_at := Some 0,
                   r_last_modified_by_id := Some 7\<rparr>) 100 [stat 1 30 10] [hourly 1 1 50] [],
        Inr [hourly 1 1 50])"
  by (simp add: update_hourly_readings_def new_uuid_def sample_defs)

text \<open>
  A daily update that changes a daily-stat row of a report with an hourly record, and an
  hourly update after it that changes that record and adds one.
\<close>

lemma sample_stats_update:
  "update_daily_report (sample_db new_report 100 [stat 1 30 10] [hourly 1 1 50] []) 1
       (no_update\<lparr>du_turbine_stats := Some [stats_update 1 45 11]\<rparr>) editor 0
     = (sample_db (new_report\<lparr>r_energy_generated := Some 45, r_total_energy_exported := Some 11,
                   r_energy_consumed := Some 34, r_avg_energy_sent_out := Some (11 / 24),
                   r_load_factor := Some (15 / 8), r_updated_at := Some 0,
                   r_last_modified_by_id := Some 7\<rparr>) 100 [stat 1 45 11] [hourly 1 1 50] [],
        Inr (Some (new_report\<lparr>r_energy_generated := Some 45, r_total_energy_exported := Some 11,
                   r_energy_consumed := Some 34, r_avg_energy_sent_out := Some (11 / 24),
                   r_load_factor := Some (15 / 8), r_updated_at := Some 0,
                   r_last_modified_by_id := Some 7\<rparr>)))"
  by (simp add: update_daily_report_def apply_report_update_def apply_stats_update_def
        run_defs sample_defs)

lemma sample_readings_update:
  "update_hourly_readings
       (sample_db (new_report\<lparr>r_energy_generated := Some 45, r_total_energy_exported := Some 11,
                   r_energy_consumed := Some 34, r_avg_energy_sent_out := Some (11 / 24),
                   r_load_factor := Some (15 / 8), r_updated_at := Some 0,
                   r_last_modified_by_id := Some 7\<rparr>) 100 [stat 1 45 11] [hourly 1 1 50] [])
       1 [reading 1 1 60, reading 1 2 55] editor 5
     = (sample_db (new_report\<lparr>r_energy_generated := Some 45, r_total_energy_exported := Some 11,
                   r_energy_consumed := Some 34, r_avg_energy_sent_out := Some (11 / 24),
                   r_load_factor := Some (15 / 8), r_updated_at := Some 5,
                   r_last_modified_by_id := Some 7\<rparr>) 100 [stat 1 45 11]
          [hourly 1 1 60, hourly 1 2 55] [],
        Inr [hourly 1 1 60, hourly 1 2 55])"
  by (simp add: update_hourly_readings_def new_uuid_def sample_defs)

text \<open>
  C3, as the specification states it, fails on both paths. After a daily update of a
  report without hourly records has computed the totals from a daily-stat row of 30 MWh,
  \<^verbatim>\<open>update_hourly_readings\<close> stores an hourly reading of 50 MWh, and the report's
  \<^verbatim>\<open>energy_generated\<close> is still 30. And \<^verbatim>\<open>update_daily_report\<close> on a report with
  an hourly record of 50 MWh, setting the daily-stat row to 45 MWh, leaves
  \<^verbatim>\<open>energy_generated\<close> at 45, the daily-stat sum.
\<close>

theorem hourly_update_leaves_totals_stale:
  "snd (update_daily_report (sample_db new_report 100 [stat 1 30 10] [] []) 1 no_update editor 0)
     = Inr (Some (new_report\<lparr>r_energy_generated := Some 30, r_total_energy_exported := Some 10,
                   r_energy_consumed := Some 20, r_avg_energy_sent_out := Some (5 / 12),
                   r_load_factor := Some (5 / 4), r_updated_at := Some 0,
                   r_last_modified_by_id := Some 7\<rparr>))
   \<and> snd (update_hourly_readings
            (fst (update_daily_report (sample_db new_report 100 [stat 1 30 10] [] []) 1
                    no_update editor 0))
            1 [reading 1 1 50] editor 0)
     = Inr [hourly 1 1 50]
   \<and> hourly_generated
        (fst (update_hourly_readings
                (fst (update_daily_report (sample_db new_report 100 [stat 1 30 10] [] []) 1
                        no_update editor 0))
                1 [reading 1 1 50] editor 0)) 1
     = 50
   \<and> map_option r_energy_generated
        (report_of
           (fst (update_hourly_readings
                   (fst (update_daily_report (sample_db new_report 100 [stat 1 30 10] [] []) 1
                           no_update editor 0))
                   1 [reading 1 1 50] editor 0)) 1)
     = Some (Some 30)
   \<and> hourly_generated
        (fst (update_daily_report (sample_db new_report 100 [stat 1 30 10] [hourly 1 1 50] []) 1
                (no_update\<lparr>du_turbine_stats := Some [stats_update 1 45 11]\<rparr>) editor 0)) 1
     = 50
   \<and> map_option r_energy_generated
        (report_of
           (fst (update_daily_report (sample_db new_report 100 [stat 1 30 10] [hourly 1 1 50] []) 1
                   (no_update\<lparr>du_turbine_stats := Some [stats_update 1 45 11]\<rparr>) editor 0)) 1)
     = Some (Some 45)"
  unfolding sample_update_daily_report sample_stats_update fst_conv snd_conv
    sample_update_hourly_readings
  by (simp add: hourly_generated_def sample_defs)

text \<open>
  C3, amended. After a successful \<^verbatim>\<open>update_daily_report\<close> on a report whose plant
  resolves, the report's \<^verbatim>\<open>energy_generated\<close> and \<^verbatim>\<open>total_energy_exported\<close>
  equal the sums over its daily-stat rows, whether or not it has hourly records.
  \<^verbatim>\<open>update_hourly_readings\<close> runs no computation: it changes only the hourly rows and
  the modification fields of the reports (\<^verbatim>\<open>updated_at\<close>, \<^verbatim>\<open>last_modified_by_id\<close>,
  \<^verbatim>\<open>is_late_submission\<close>), and leaves the daily-stat rows, the plants, the morning
  readings, the turbines and every other field of every report, the eleven derived fields
  among them, as they were.
\<close>

theorem totals_after_update_paths:
  "(update_daily_report d rid report_in current_user now = (d', Inr res)
      \<and> report_of d rid = Some r \<and> plant_of d r = Some pp
      \<longrightarrow> (\<exists>r'. res = Some r' \<and> report_of d' rid = Some r'
             \<and> r_energy_generated r' = Some (daily_generated d' rid)
             \<and> r_total_energy_exported r' = Some (daily_exported d' rid)))
   \<and> (update_hourly_readings d rid readings current_user now = (dh, resh)
      \<longrightarrow> turbine_daily_stats dh = turbine_daily_stats d
          \<and> power_plants dh = power_plants d
          \<and> morning_readings dh = morning_readings d
          \<and> turbines dh = turbines d
          \<and> map without_modification_fields (daily_reports dh)
              = map without_modification_fields (daily_reports d)
          \<and> map derived_fields (daily_reports dh) = map derived_fields (daily_reports d))"
proof (intro conjI impI)
  assume h: "update_daily_report d rid report_in current_user now = (d', Inr res)
      \<and> report_of d rid = Some r \<and> plant_of d r = Some pp"
  then have run: "update_daily_report d rid report_in current_user now = (d', Inr res)"
    and r: "report_of d rid = Some r" and pp: "plant_of d r = Some pp"
    by simp_all
  obtain rep d1 rep3 where k: "r_id rep = rid" "r_id rep3 = rid"
      "r_power_plant_id rep3 = r_power_plant_id r"
    and loop: "turbine_stats_loop rid rep
               (case du_turbine_stats report_in of None \<Rightarrow> [] | Some l \<Rightarrow> l) d = (d1, Inr ())"
    and svc: "service_calculate_and_update_all_metrics
               (d1\<lparr>daily_reports :=
                     update_first (\<lambda>r. r_id r = rid) (\<lambda>_. rep3) (daily_reports d1)\<rparr>) rid = Inr d'"
    and res: "res = report_of d' rid"
    using update_daily_report_success [OF run r] by blast
  let ?da = "d1\<lparr>daily_reports := update_first (\<lambda>r. r_id r = rid) (\<lambda>_. rep3) (daily_reports d1)\<rparr>"
  have fr: "power_plants d1 = power_plants d" "report_of d1 rid \<noteq> None"
    using turbine_stats_loop_frame [OF loop k(1)] r by simp_all
  then obtain r1 where "report_of d1 rid = Some r1" by auto
  then have r2: "report_of ?da rid = Some rep3"
    using find_update_first_const [of "\<lambda>r. r_id r = rid" "daily_reports d1" r1 rep3] k(2)
    by simp
  have p2: "plant_of ?da rep3 = Some pp"
    using pp by (simp add: fr(1) k(3))
  obtain r' where m: "service_metrics pp (morning_of ?da rep3) (stats_of ?da rid) rep3 = Inr r'"
    and run': "service_calculate_and_update_all_metrics ?da rid =
      Inr (?da\<lparr>daily_reports := update_first (\<lambda>x. r_id x = rid) (\<lambda>_. r') (daily_reports ?da)\<rparr>)"
    and after: "report_after (service_calculate_and_update_all_metrics ?da rid) rid = Some r'"
    using service_resolved [OF r2 p2] by blast
  have d': "d' = ?da\<lparr>daily_reports := update_first (\<lambda>x. r_id x = rid) (\<lambda>_. r') (daily_reports ?da)\<rparr>"
    using svc run' by simp
  have a: "report_of d' rid = Some r'"
    using after unfolding svc by (simp add: report_after_def)
  have st: "stats_of d' rid = stats_of ?da rid"
    unfolding d' by simp
  note f = service_metrics_fields(1,2) [OF m]
  have "r_energy_generated r' = Some (daily_generated d' rid)"
    and "r_total_energy_exported r' = Some (daily_exported d' rid)"
    using f by (simp_all add: daily_generated_def daily_exported_def st)
  with a res show "\<exists>r'. res = Some r' \<and> report_of d' rid = Some r'
             \<and> r_energy_generated r' = Some (daily_generated d' rid)
             \<and> r_total_energy_exported r' = Some (daily_exported d' rid)"
    by simp
next
  assume run: "update_hourly_readings d rid readings current_user now = (dh, resh)"
  show "turbine_daily_stats dh = turbine_daily_stats d" and "power_plants dh = power_plants d"
    and "morning_readings dh = morning_readings d" and "turbines dh = turbines d"
    using update_hourly_readings_frame [OF run] by simp_all
  show "map without_modification_fields (daily_reports dh)
      = map without_modification_fields (daily_reports d)"
    by (rule update_hourly_readings_reports [OF run])
       (simp_all add: without_modification_fields_def)
  show "map derived_fields (daily_reports dh) = map derived_fields (daily_reports d)"
    by (rule update_hourly_readings_reports [OF run]) (simp_all add: derived_fields_def)
qed

theorem totals_after_update_paths_witness:
  "update_daily_report (sample_db new_report 100 [stat 1 30 10] [hourly 1 1 50] []) 1
       (no_update\<lparr>du_turbine_stats := Some [stats_update 1 45 11]\<rparr>) editor 0
     = (sample_db (new_report\<lparr>r_energy_generated := Some 45, r_total_energy_exported := Some 11,
                   r_energy_consumed := Some 34, r_avg_energy_sent_out := Some (11 / 24),
                   r_load_factor := Some (15 / 8), r_updated_at := Some 0,
                   r_last_modified_by_id := Some 7\<rparr>) 100 [stat 1 45 11] [hourly 1 1 50] [],
        Inr (Some (new_report\<lparr>r_energy_generated := Some 45, r_total_energy_exported := Some 11,
                   r_energy_consumed := Some 34, r_avg_energy_sent_out := Some (11 / 24),
                   r_load_factor := Some (15 / 8), r_updated_at := Some 0,
                   r_last_modified_by_id := Some 7\<rparr>)))
   \<and> report_of (sample_db new_report 100 [stat 1 30 10] [hourly 1 1 50] []) 1 = Some new_report
   \<and> plant_of (sample_db new_report 100 [stat 1 30 10] [hourly 1 1 50] []) new_report
     = Some (plant 100)
   \<and> daily_generated
       (sample_db (new_report\<lparr>r_energy_generated := Some 45, r_total_energy_exported := Some 11,
                   r_energy_consumed := Some 34, r_avg_energy_sent_out := Some (11 / 24),
                   r_load_factor := Some (15 / 8), r_updated_at := Some 0,
                   r_last_modified_by_id := Some 7\<rparr>) 100 [stat 1 45 11] [hourly 1 1 50] []) 1 = 45
   \<and> daily_exported
       (sample_db (new_report\<lparr>r_energy_generated := Some 45, r_total_energy_exported := Some 11,
                   r_energy_consumed := Some 34, r_avg_energy_sent_out := Some (11 / 24),
                   r_load_factor := Some (15 / 8), r_updated_at := Some 0,
                   r_last_modified_by_id := Some 7\<rparr>) 100 [stat 1 45 11] [hourly 1 1 50] []) 1 = 11
   \<and> update_hourly_readings
       (sample_db (new_report\<lparr>r_energy_generated := Some 45, r_total_energy_exported := Some 11,
                   r_energy_consumed := Some 34, r_avg_energy_sent_out := Some (11 / 24),
                   r_load_factor := Some (15 / 8), r_updated_at := Some 0,
                   r_last_modified_by_id := Some 7\<rparr>) 100 [stat 1 45 11] [hourly 1 1 50] [])
       1 [reading 1 1 60, reading 1 2 55] editor 5
     = (sample_db (new_report\<lparr>r_energy_generated := Some 45, r_total_energy_exported := Some 11,
                   r_energy_consumed := Some 34, r_avg_energy_sent_out := Some (11 / 24),
                   r_load_factor := Some (15 / 8), r_updated_at := Some 5,
                   r_last_modified_by_id := Some 7\<rparr>) 100 [stat 1 45 11]
          [hourly 1 1 60, hourly 1 2 55] [],
        Inr [hourly 1 1 60, hourly 1 2 55])
   \<and> (\<exists>r'. report_of
              (sample_db (new_report\<lparr>r_energy_generated := Some 45,
                   r_total_energy_exported := Some 11,
                   r_energy_consumed := Some 34, r_avg_energy_sent_out := Some (11 / 24),
                   r_load_factor := Some (15 / 8), r_updated_at := Some 0,
                   r_last_modified_by_id := Some 7\<rparr>) 100 [stat 1 45 11] [hourly 1 1 50] []) 1
              = Some r'
          \<and> r_energy_generated r' = Some 45 \<and> r_total_energy_exported r' = Some 11)
   \<and> map without_modification_fields
       (daily_reports
          (sample_db (new_report\<lparr>r_energy_generated := Some 45, r_total_energy_exported := Some 11,
                   r_energy_consumed := Some 34, r_avg_energy_sent_out := Some (11 / 24),
                   r_load_factor := Some (15 / 8), r_updated_at := Some 5,
                   r_last_modified_by_id := Some 7\<rparr>) 100 [stat 1 45 11]
             [hourly 1 1 60, hourly 1 2 55] []))
     = map without_modification_fields
         (daily_reports
            (sample_db (new_report\<lparr>r_energy_generated := Some 45,
                   r_total_energy_exported := Some 11,
                   r_energy_consumed := Some 34, r_avg_energy_sent_out := Some (11 / 24),
                   r_load_factor := Some (15 / 8), r_updated_at := Some 0,
                   r_last_modified_by_id := Some 7\<rparr>) 100 [stat 1 45 11] [hourly 1 1 50] []))"
proof -
  let ?d = "sample_db new_report 100 [stat 1 30 10] [hourly 1 1 50] []"
  let ?r = "new_report\<lparr>r_energy_generated := Some 45, r_total_energy_exported := Some 11,
                   r_energy_consumed := Some 34, r_avg_energy_sent_out := Some (11 / 24),
                   r_load_factor := Some (15 / 8), r_updated_at := Some 0,
                   r_last_modified_by_id := Some 7\<rparr>"
  let ?e = "sample_db ?r 100 [stat 1 45 11] [hourly 1 1 50] []"
  let ?s = "new_report\<lparr>r_energy_generated := Some 45, r_total_energy_exported := Some 11,
                   r_energy_consumed := Some 34, r_avg_energy_sent_out := Some (11 / 24),
                   r_load_factor := Some (15 / 8), r_updated_at := Some 5,
                   r_last_modified_by_id := Some 7\<rparr>"
  let ?f = "sample_db ?s 100 [stat 1 45 11] [hourly 1 1 60, hourly 1 2 55] []"
  have h1: "report_of ?d 1 = Some new_report"
    by (simp add: sample_defs)
  have h2: "plant_of ?d new_report = Some (plant 100)"
    by (simp add: sample_defs)
  have v: "daily_generated ?e 1 = 45" "daily_exported ?e 1 = 11"
    by (simp_all add: daily_generated_def daily_exported_def sample_defs)
  note u = sample_stats_update
  note w = sample_readings_update
  have p: "\<exists>r'. report_of ?e 1 = Some r'
          \<and> r_energy_generated r' = Some 45 \<and> r_total_energy_exported r' = Some 11"
    using totals_after_update_paths
      [where d = ?d and rid = 1
         and report_in = "no_update\<lparr>du_turbine_stats := Some [stats_update 1 45 11]\<rparr>"
         and current_user = editor and now = 0 and d' = ?e and res = "Some ?r"
         and r = new_report and pp = "plant 100"]
      u h1 h2 v
    by auto
  have q: "map without_modification_fields (daily_reports ?f)
      = map without_modification_fields (daily_reports ?e)"
    using totals_after_update_paths
      [where d = ?e and rid = 1 and readings = "[reading 1 1 60, reading 1 2 55]"
         and current_user = editor and now = 5 and dh = ?f
         and resh = "Inr [hourly 1 1 60, hourly 1 2 55]"]
      w
    by blast
  show ?thesis
    using u h1 h2 v w p q by blast
qed

end
